theory Spec2Isabelle
  imports Main "HOL-Library.Char_ord" "HOL-Library.List_Lexorder" "HOL-Library.AList"
begin

section \<open>AxolotlDrive: the public file store (services/public\_files/public\_files.go)\<close>

text \<open>
  A shallow embedding of \<^verbatim>\<open>PublicFilesService\<close>. Go strings are byte strings and are
  modelled as \<^typ>\<open>string\<close>; \<^verbatim>\<open>len\<close> is \<^const>\<open>length\<close> and \<^verbatim>\<open><\<close> on strings is the
  bytewise lexicographic order. The functions of Go's standard library that the service
  calls (\<^verbatim>\<open>strings\<close>, \<^verbatim>\<open>path/filepath\<close> on Unix, \<^verbatim>\<open>os\<close>, \<^verbatim>\<open>sort\<close>) are modelled from
  their documented behaviour; they carry the names they have in Go.
\<close>

subsection \<open>Package strings\<close>

definition HasPrefix :: "string \<Rightarrow> string \<Rightarrow> bool" where
  "HasPrefix s pre = (take (length pre) s = pre)"

fun Contains :: "string \<Rightarrow> string \<Rightarrow> bool" where
  "Contains [] sub = (sub = [])"
| "Contains (c # cs) sub = (HasPrefix (c # cs) sub \<or> Contains cs sub)"

text \<open>\<^verbatim>\<open>strings.ReplaceAll(s, old, new)\<close> for one-byte \<^verbatim>\<open>old\<close> and \<^verbatim>\<open>new\<close>.\<close>

definition ReplaceAll :: "string \<Rightarrow> char \<Rightarrow> char \<Rightarrow> string" where
  "ReplaceAll s old new = map (\<lambda>c. if c = old then new else c) s"

text \<open>\<^verbatim>\<open>strings.Trim(s, cutset)\<close> for a one-byte cutset.\<close>

definition Trim :: "string \<Rightarrow> char \<Rightarrow> string" where
  "Trim s cutset = rev (dropWhile (\<lambda>c. c = cutset) (rev (dropWhile (\<lambda>c. c = cutset) s)))"

definition TrimPrefix :: "string \<Rightarrow> string \<Rightarrow> string" where
  "TrimPrefix s pre = (if HasPrefix s pre then drop (length pre) s else s)"

text \<open>\<^verbatim>\<open>strings.Split(s, sep)\<close> for a one-byte separator: one more piece than separators.\<close>

fun Split :: "string \<Rightarrow> char \<Rightarrow> string list" where
  "Split [] sep = [[]]"
| "Split (c # cs) sep =
     (if c = sep then [] # Split cs sep
      else (case Split cs sep of [] \<Rightarrow> [[c]] | w # ws \<Rightarrow> (c # w) # ws))"

fun JoinStrings :: "string list \<Rightarrow> string \<Rightarrow> string" where
  "JoinStrings [] sep = []"
| "JoinStrings [e] sep = e"
| "JoinStrings (e # es) sep = e @ sep @ JoinStrings es sep"

text \<open>
  \<^verbatim>\<open>strings.ToLower\<close> on the ASCII range: the letters A to Z are mapped to a to z and every
  other byte is kept. (Go also lower-cases letters outside ASCII; names and queries are
  taken to be ASCII here.)
\<close>

definition lower_char :: "char \<Rightarrow> char" where
  "lower_char c =
     (if 65 \<le> (of_char c :: nat) \<and> (of_char c :: nat) \<le> 90
      then char_of ((of_char c :: nat) + 32) else c)"

definition ToLower :: "string \<Rightarrow> string" where
  "ToLower s = map lower_char s"

subsection \<open>Package path/filepath (Unix)\<close>

definition Separator :: char where
  "Separator = CHR ''/''"

definition IsAbs :: "string \<Rightarrow> bool" where
  "IsAbs path = HasPrefix path ''/''"

text \<open>
  \<^verbatim>\<open>filepath.Clean\<close>: the elements between slashes are processed from left to right onto a
  stack (kept reversed); empty elements and \<^verbatim>\<open>.\<close> are dropped, \<^verbatim>\<open>..\<close> removes the element
  before it, is dropped at the top of a rooted path and is kept at the start of a relative
  one.
\<close>

fun clean_elems :: "bool \<Rightarrow> string list \<Rightarrow> string list \<Rightarrow> string list" where
  "clean_elems rooted out [] = rev out"
| "clean_elems rooted out (e # es) =
     (if e = [] \<or> e = ''.'' then clean_elems rooted out es
      else if e = ''..'' then
        (case out of
           [] \<Rightarrow> if rooted then clean_elems rooted [] es else clean_elems rooted [''..''] es
         | t # ts \<Rightarrow> if t = ''..'' then clean_elems rooted (''..'' # out) es
                     else clean_elems rooted ts es)
      else clean_elems rooted (e # out) es)"

definition Clean :: "string \<Rightarrow> string" where
  "Clean path =
     (if path = [] then ''.''
      else let rooted = IsAbs path;
               out = clean_elems rooted [] (Split path Separator)
           in if rooted then Separator # JoinStrings out ''/''
              else if out = [] then ''.'' else JoinStrings out ''/'')"

text \<open>\<^verbatim>\<open>filepath.Join\<close>: leading empty elements are ignored, the rest is joined and cleaned.\<close>

definition Join :: "string list \<Rightarrow> string" where
  "Join elem =
     (case dropWhile (\<lambda>e. e = []) elem of
        [] \<Rightarrow> []
      | es \<Rightarrow> Clean (JoinStrings es ''/''))"

text \<open>
  \<^verbatim>\<open>filepath.Abs\<close>, with the working directory \<open>wd\<close> of the process as a parameter
  (\<^verbatim>\<open>os.Getwd\<close> is taken not to fail).
\<close>

definition Abs :: "string \<Rightarrow> string \<Rightarrow> string" where
  "Abs wd path = (if IsAbs path then Clean path else Join [wd, path])"

text \<open>\<^verbatim>\<open>filepath.Dir\<close>: everything up to the last slash, cleaned.\<close>

definition Dir :: "string \<Rightarrow> string" where
  "Dir path = Clean (rev (dropWhile (\<lambda>c. c \<noteq> Separator) (rev path)))"

text \<open>\<^verbatim>\<open>filepath.Base\<close>: the last element, after trailing slashes are removed.\<close>

definition Base :: "string \<Rightarrow> string" where
  "Base path =
     (if path = [] then ''.''
      else let stripped = rev (dropWhile (\<lambda>c. c = Separator) (rev path));
               last_elem = rev (takeWhile (\<lambda>c. c \<noteq> Separator) (rev stripped))
           in if last_elem = [] then ''/'' else last_elem)"

text \<open>
  \<^verbatim>\<open>filepath.Rel\<close>: both paths are cleaned; a rooted and an unrooted path cannot be related
  (the result would need the working directory); otherwise the common leading elements
  are removed, each remaining element of the base becomes \<^verbatim>\<open>..\<close>, and the rest of the
  target follows. A base whose remaining elements start with \<^verbatim>\<open>..\<close> cannot be left
  lexically. \<open>None\<close> is Go's error.
\<close>

definition path_elems :: "string \<Rightarrow> string list" where
  "path_elems path = filter (\<lambda>e. e \<noteq> []) (Split path Separator)"

fun strip_common :: "string list \<Rightarrow> string list \<Rightarrow> string list \<times> string list" where
  "strip_common (b # bs) (t # ts) = (if b = t then strip_common bs ts else (b # bs, t # ts))"
| "strip_common bs ts = (bs, ts)"

definition Rel :: "string \<Rightarrow> string \<Rightarrow> string option" where
  "Rel basepath targpath =
     (let base = Clean basepath; targ = Clean targpath in
      if targ = base then Some ''.''
      else let base' = (if base = ''.'' then [] else base) in
        if IsAbs base' \<noteq> IsAbs targ then None
        else case strip_common (path_elems base') (path_elems targ) of (bs, ts) \<Rightarrow>
          if bs \<noteq> [] \<and> hd bs = ''..'' then None
          else Some (JoinStrings (replicate (length bs) ''..'' @ ts) ''/''))"

subsection \<open>The file system (package os)\<close>

text \<open>
  The disk is a tree: a file with its bytes, or a folder with its named entries. There are
  no symbolic links, permissions are not modelled, and the storage itself never fails: a
  system call fails only for the reasons the tree determines (a missing name, a file where
  a folder is needed, an existing name, and so on). A path given to the operating system
  is made absolute against the working directory and resolved element by element from the
  root.
\<close>

datatype node = File (content: string) | Folder (entries: "(string \<times> node) list")

datatype errno = ENOENT | ENOTDIR | EEXIST | EISDIR | EINVAL | ENOTEMPTY | EBUSY

record os_state =
  wd :: string
  disk :: node

fun IsDir :: "node \<Rightarrow> bool" where
  "IsDir (File c) = False"
| "IsDir (Folder ents) = True"

fun lookup :: "node \<Rightarrow> string list \<Rightarrow> errno + node" where
  "lookup n [] = Inr n"
| "lookup (File c) (e # es) = Inl ENOTDIR"
| "lookup (Folder ents) (e # es) =
     (case map_of ents e of None \<Rightarrow> Inl ENOENT | Some ch \<Rightarrow> lookup ch es)"

text \<open>\<open>store t es n\<close> puts \<open>n\<close> at \<open>es\<close>; the parent must be an existing folder.\<close>

fun store :: "node \<Rightarrow> string list \<Rightarrow> node \<Rightarrow> errno + node" where
  "store t [] n = Inl EEXIST"
| "store (File c) (e # es) n = Inl ENOTDIR"
| "store (Folder ents) [e] n = Inr (Folder (AList.update e n ents))"
| "store (Folder ents) (e # es) n =
     (case map_of ents e of
        None \<Rightarrow> Inl ENOENT
      | Some ch \<Rightarrow>
          (case store ch es n of
             Inl err \<Rightarrow> Inl err
           | Inr ch' \<Rightarrow> Inr (Folder (AList.update e ch' ents))))"

text \<open>\<open>unlink t es\<close> removes the entry at \<open>es\<close> with everything below it.\<close>

fun unlink :: "node \<Rightarrow> string list \<Rightarrow> errno + node" where
  "unlink t [] = Inl EBUSY"
| "unlink (File c) (e # es) = Inl ENOTDIR"
| "unlink (Folder ents) [e] =
     (case map_of ents e of
        None \<Rightarrow> Inl ENOENT
      | Some ch \<Rightarrow> Inr (Folder (AList.delete e ents)))"
| "unlink (Folder ents) (e # es) =
     (case map_of ents e of
        None \<Rightarrow> Inl ENOENT
      | Some ch \<Rightarrow>
          (case unlink ch es of
             Inl err \<Rightarrow> Inl err
           | Inr ch' \<Rightarrow> Inr (Folder (AList.update e ch' ents))))"

fun mkdir_all :: "node \<Rightarrow> string list \<Rightarrow> errno + node" where
  "mkdir_all (File c) es = Inl ENOTDIR"
| "mkdir_all (Folder ents) [] = Inr (Folder ents)"
| "mkdir_all (Folder ents) (e # es) =
     (case mkdir_all (case map_of ents e of None \<Rightarrow> Folder [] | Some ch \<Rightarrow> ch) es of
        Inl err \<Rightarrow> Inl err
      | Inr ch' \<Rightarrow> Inr (Folder (AList.update e ch' ents)))"

definition os_path :: "os_state \<Rightarrow> string \<Rightarrow> string list" where
  "os_path w name = path_elems (Abs (wd w) name)"

definition Stat :: "os_state \<Rightarrow> string \<Rightarrow> errno + node" where
  "Stat w name = (if name = [] then Inl ENOENT else lookup (disk w) (os_path w name))"

definition IsNotExist :: "errno \<Rightarrow> bool" where
  "IsNotExist err = (err = ENOENT)"

definition IsExist :: "errno \<Rightarrow> bool" where
  "IsExist err = (err = EEXIST \<or> err = ENOTEMPTY)"

definition MkdirAll :: "os_state \<Rightarrow> string \<Rightarrow> errno + os_state" where
  "MkdirAll w path =
     (if path = [] then Inl ENOENT
      else case mkdir_all (disk w) (os_path w path) of
             Inl err \<Rightarrow> Inl err
           | Inr t \<Rightarrow> Inr (w\<lparr>disk := t\<rparr>))"

definition Mkdir :: "os_state \<Rightarrow> string \<Rightarrow> errno + os_state" where
  "Mkdir w name =
     (case Stat w name of
        Inr n \<Rightarrow> Inl EEXIST
      | Inl err \<Rightarrow>
          if err = ENOENT \<and> name \<noteq> [] then
            (case store (disk w) (os_path w name) (Folder []) of
               Inl err' \<Rightarrow> Inl err'
             | Inr t \<Rightarrow> Inr (w\<lparr>disk := t\<rparr>))
          else Inl err)"

text \<open>\<^verbatim>\<open>os.WriteFile\<close> opens with create and truncate: an existing file is overwritten.\<close>

definition WriteFile :: "os_state \<Rightarrow> string \<Rightarrow> string \<Rightarrow> errno + os_state" where
  "WriteFile w name data =
     (case Stat w name of
        Inr (Folder ents) \<Rightarrow> Inl EISDIR
      | Inr (File c) \<Rightarrow>
          (case store (disk w) (os_path w name) (File data) of
             Inl err' \<Rightarrow> Inl err'
           | Inr t \<Rightarrow> Inr (w\<lparr>disk := t\<rparr>))
      | Inl err \<Rightarrow>
          if err = ENOENT \<and> name \<noteq> [] then
            (case store (disk w) (os_path w name) (File data) of
               Inl err' \<Rightarrow> Inl err'
             | Inr t \<Rightarrow> Inr (w\<lparr>disk := t\<rparr>))
          else Inl err)"

text \<open>\<^verbatim>\<open>os.Create\<close> is the same open with nothing written yet.\<close>

definition Create :: "os_state \<Rightarrow> string \<Rightarrow> errno + os_state" where
  "Create w name = WriteFile w name []"

text \<open>\<^verbatim>\<open>f.Write\<close> on the file opened at \<open>name\<close>: the bytes are appended.\<close>

definition Write :: "os_state \<Rightarrow> string \<Rightarrow> string \<Rightarrow> errno + os_state" where
  "Write w name buf =
     (case Stat w name of
        Inr (File c) \<Rightarrow> WriteFile w name (c @ buf)
      | Inr (Folder ents) \<Rightarrow> Inl EISDIR
      | Inl err \<Rightarrow> Inl err)"

definition ReadFile :: "os_state \<Rightarrow> string \<Rightarrow> errno + string" where
  "ReadFile w name =
     (case Stat w name of
        Inr (File c) \<Rightarrow> Inr c
      | Inr (Folder ents) \<Rightarrow> Inl EISDIR
      | Inl err \<Rightarrow> Inl err)"

text \<open>\<^verbatim>\<open>os.Remove\<close>: a file, or an empty folder.\<close>

definition Remove :: "os_state \<Rightarrow> string \<Rightarrow> errno + os_state" where
  "Remove w name =
     (case Stat w name of
        Inl err \<Rightarrow> Inl err
      | Inr n \<Rightarrow>
          if IsDir n \<and> entries n \<noteq> [] then Inl ENOTEMPTY
          else (case unlink (disk w) (os_path w name) of
                  Inl err \<Rightarrow> Inl err
                | Inr t \<Rightarrow> Inr (w\<lparr>disk := t\<rparr>)))"

text \<open>
  \<^verbatim>\<open>os.RemoveAll\<close>: the empty path and a missing path are no error; a path ending in a dot
  is refused.
\<close>

definition endsWithDot :: "string \<Rightarrow> bool" where
  "endsWithDot path = (path = ''.'' \<or> HasPrefix (rev path) ''./'')"

definition RemoveAll :: "os_state \<Rightarrow> string \<Rightarrow> errno + os_state" where
  "RemoveAll w path =
     (if path = [] then Inr w
      else if endsWithDot path then Inl EINVAL
      else case Stat w path of
             Inl err \<Rightarrow> if err = ENOENT then Inr w else Inl err
           | Inr n \<Rightarrow>
               (case unlink (disk w) (os_path w path) of
                  Inl err \<Rightarrow> Inl err
                | Inr t \<Rightarrow> Inr (w\<lparr>disk := t\<rparr>)))"

text \<open>
  \<^verbatim>\<open>os.Rename\<close>: the old name must exist, the new one must not lie below the old one, a
  folder at the new name is refused, and the parent of the new name must be a folder.
\<close>

definition Rename :: "os_state \<Rightarrow> string \<Rightarrow> string \<Rightarrow> errno + os_state" where
  "Rename w oldname newname =
     (case Stat w oldname of
        Inl err \<Rightarrow> Inl err
      | Inr n \<Rightarrow>
          let old = os_path w oldname; new = os_path w newname in
          if newname = [] then Inl ENOENT
          else if (case Stat w newname of Inr m \<Rightarrow> IsDir m | Inl err \<Rightarrow> False) then Inl EEXIST
          else if old = new then Inr w
          else if take (length old) new = old then Inl EINVAL
          else if (case Stat w newname of Inr m \<Rightarrow> IsDir n | Inl err \<Rightarrow> False) then Inl ENOTDIR
          else case unlink (disk w) old of
                 Inl err \<Rightarrow> Inl err
               | Inr t \<Rightarrow>
                   (case store t new n of
                      Inl err \<Rightarrow> Inl err
                    | Inr t' \<Rightarrow> Inr (w\<lparr>disk := t'\<rparr>)))"

text \<open>\<^verbatim>\<open>os.ReadDir\<close>: the entries of a folder, sorted by name.\<close>

definition sorted_entries :: "(string \<times> node) list \<Rightarrow> (string \<times> node) list" where
  "sorted_entries ents = sort_key fst (AList.clearjunk ents)"

definition ReadDir :: "os_state \<Rightarrow> string \<Rightarrow> errno + (string \<times> node) list" where
  "ReadDir w name =
     (case Stat w name of
        Inr (Folder ents) \<Rightarrow> Inr (sorted_entries ents)
      | Inr (File c) \<Rightarrow> Inl ENOTDIR
      | Inl err \<Rightarrow> Inl err)"

text \<open>
  \<^verbatim>\<open>filepath.Walk\<close>: the callback sees the root and then, folder by folder and in the order
  of the names, everything below it. A callback that answers \<^verbatim>\<open>SkipDir\<close> on a folder
  keeps the walk out of that folder; on a file it ends the walk of the folder the file is
  in. The callback carries its own state \<open>acc\<close> (the variables it closes over in Go).
\<close>

datatype walk_ret = WalkNil | SkipDir

fun node_weight :: "node \<Rightarrow> nat" where
  "node_weight (File c) = 1"
| "node_weight (Folder ents) = Suc (sum_list (map (\<lambda>e. node_weight (snd e)) ents))"

definition entries_weight :: "(string \<times> node) list \<Rightarrow> nat" where
  "entries_weight ents = sum_list (map (\<lambda>e. node_weight (snd e)) ents)"

lemma node_weight_pos: "0 < node_weight n"
  by (cases n) simp_all

lemma entries_weight_delete: "entries_weight (AList.delete k ents) \<le> entries_weight ents"
  by (induction ents) (auto simp: entries_weight_def)

lemma entries_weight_clearjunk: "entries_weight (AList.clearjunk ents) \<le> entries_weight ents"
proof (induction ents rule: AList.clearjunk.induct)
  case 1
  then show ?case by simp
next
  case (2 p ps)
  have "entries_weight (AList.clearjunk (AList.delete (fst p) ps))
          \<le> entries_weight (AList.delete (fst p) ps)"
    using 2 by simp
  also have "\<dots> \<le> entries_weight ps"
    by (rule entries_weight_delete)
  finally show ?case
    by (simp add: entries_weight_def)
qed

lemma entries_weight_insort_key:
  "entries_weight (insort_key f x xs) = node_weight (snd x) + entries_weight xs"
  by (induction xs) (auto simp: entries_weight_def)

lemma entries_weight_sort_key: "entries_weight (sort_key f ents) = entries_weight ents"
proof (induction ents)
  case Nil
  then show ?case by simp
next
  case (Cons e ents)
  then show ?case
    by (simp add: entries_weight_insort_key) (simp add: entries_weight_def)
qed

lemma entries_weight_sorted_entries: "entries_weight (sorted_entries ents) \<le> entries_weight ents"
  by (simp add: sorted_entries_def entries_weight_sort_key entries_weight_clearjunk)

function walk :: "(string \<Rightarrow> string \<Rightarrow> node \<Rightarrow> 'a \<Rightarrow> 'a \<times> walk_ret) \<Rightarrow>
                    string \<Rightarrow> string \<Rightarrow> node \<Rightarrow> 'a \<Rightarrow> 'a \<times> walk_ret"
  and walk_names :: "(string \<Rightarrow> string \<Rightarrow> node \<Rightarrow> 'a \<Rightarrow> 'a \<times> walk_ret) \<Rightarrow>
                    string \<Rightarrow> (string \<times> node) list \<Rightarrow> 'a \<Rightarrow> 'a \<times> walk_ret" where
  "walk walkFn path name (File c) acc = walkFn path name (File c) acc"
| "walk walkFn path name (Folder ents) acc =
     (case walkFn path name (Folder ents) acc of
        (acc', SkipDir) \<Rightarrow> (acc', SkipDir)
      | (acc', WalkNil) \<Rightarrow> walk_names walkFn path (sorted_entries ents) acc')"
| "walk_names walkFn path [] acc = (acc, WalkNil)"
| "walk_names walkFn path (e # rest) acc =
     (case walk walkFn (Join [path, fst e]) (fst e) (snd e) acc of
        (acc', SkipDir) \<Rightarrow>
          if IsDir (snd e) then walk_names walkFn path rest acc' else (acc', SkipDir)
      | (acc', WalkNil) \<Rightarrow> walk_names walkFn path rest acc')"
  by pat_completeness auto

termination
proof (relation "measure (\<lambda>x. case x of
          Inl (walkFn, path, name, n, acc) \<Rightarrow> 2 * node_weight n
        | Inr (walkFn, path, ents, acc) \<Rightarrow> Suc (2 * entries_weight ents))")
  show "wf (measure (\<lambda>x. case x of
          Inl (walkFn, path, name, n, acc) \<Rightarrow> 2 * node_weight n
        | Inr (walkFn, path, ents, acc) \<Rightarrow> Suc (2 * entries_weight (ents :: (string \<times> node) list))))"
    by simp
next
  fix walkFn :: "string \<Rightarrow> string \<Rightarrow> node \<Rightarrow> 'a \<Rightarrow> 'a \<times> walk_ret"
  fix path name :: string and ents :: "(string \<times> node) list" and acc acc' :: 'a
  have "entries_weight (sorted_entries ents) \<le> entries_weight ents"
    by (rule entries_weight_sorted_entries)
  then show "(Inr (walkFn, path, sorted_entries ents, acc'), Inl (walkFn, path, name, Folder ents, acc))
        \<in> measure (\<lambda>x. case x of
          Inl (walkFn, path, name, n, acc) \<Rightarrow> 2 * node_weight n
        | Inr (walkFn, path, ents, acc) \<Rightarrow> Suc (2 * entries_weight ents))"
    by (simp add: entries_weight_def)
next
  fix walkFn :: "string \<Rightarrow> string \<Rightarrow> node \<Rightarrow> 'a \<Rightarrow> 'a \<times> walk_ret"
  fix path :: string and e :: "string \<times> node" and rest :: "(string \<times> node) list" and acc :: 'a
  show "(Inl (walkFn, Join [path, fst e], fst e, snd e, acc), Inr (walkFn, path, e # rest, acc))
        \<in> measure (\<lambda>x. case x of
          Inl (walkFn, path, name, n, acc) \<Rightarrow> 2 * node_weight n
        | Inr (walkFn, path, ents, acc) \<Rightarrow> Suc (2 * entries_weight ents))"
    by (simp add: entries_weight_def)
next
  fix walkFn :: "string \<Rightarrow> string \<Rightarrow> node \<Rightarrow> 'a \<Rightarrow> 'a \<times> walk_ret"
  fix path :: string and e :: "string \<times> node" and rest :: "(string \<times> node) list" and acc acc' :: 'a
  have "0 < node_weight (snd e)"
    by (rule node_weight_pos)
  then show "(Inr (walkFn, path, rest, acc'), Inr (walkFn, path, e # rest, acc))
        \<in> measure (\<lambda>x. case x of
          Inl (walkFn, path, name, n, acc) \<Rightarrow> 2 * node_weight n
        | Inr (walkFn, path, ents, acc) \<Rightarrow> Suc (2 * entries_weight ents))"
    by (simp add: entries_weight_def)
next
  fix walkFn :: "string \<Rightarrow> string \<Rightarrow> node \<Rightarrow> 'a \<Rightarrow> 'a \<times> walk_ret"
  fix path :: string and e :: "string \<times> node" and rest :: "(string \<times> node) list" and acc acc' :: 'a
  have "0 < node_weight (snd e)"
    by (rule node_weight_pos)
  then show "(Inr (walkFn, path, rest, acc'), Inr (walkFn, path, e # rest, acc))
        \<in> measure (\<lambda>x. case x of
          Inl (walkFn, path, name, n, acc) \<Rightarrow> 2 * node_weight n
        | Inr (walkFn, path, ents, acc) \<Rightarrow> Suc (2 * entries_weight ents))"
    by (simp add: entries_weight_def)
qed

text \<open>
  \<^verbatim>\<open>filepath.Walk(root, fn)\<close>: a root that cannot be read is reported to the callback, which
  here always answers nil to an error; the final \<^verbatim>\<open>SkipDir\<close> is swallowed.
\<close>

definition Walk :: "os_state \<Rightarrow> string \<Rightarrow> (string \<Rightarrow> string \<Rightarrow> node \<Rightarrow> 'a \<Rightarrow> 'a \<times> walk_ret) \<Rightarrow> 'a \<Rightarrow> 'a" where
  "Walk w root walkFn acc =
     (case Stat w root of
        Inl err \<Rightarrow> acc
      | Inr info \<Rightarrow> fst (walk walkFn root (Base root) info acc))"

subsection \<open>Package sort and 32-bit integers\<close>

text \<open>
  \<^verbatim>\<open>sort.Slice\<close> with a \<^verbatim>\<open>less\<close> function, as the insertion sort Go runs on short slices:
  each element in turn moves left past the elements it is less than. (On longer slices Go
  may order elements that compare equal differently; that it returns the same elements,
  ordered by \<^verbatim>\<open>less\<close>, holds for both.)
\<close>

fun slice_insert :: "('a \<Rightarrow> 'a \<Rightarrow> bool) \<Rightarrow> 'a \<Rightarrow> 'a list \<Rightarrow> 'a list" where
  "slice_insert lt x [] = [x]"
| "slice_insert lt x (y # ys) =
     (if lt x y then x # y # ys else y # slice_insert lt x ys)"

definition sort_Slice :: "('a \<Rightarrow> 'a \<Rightarrow> bool) \<Rightarrow> 'a list \<Rightarrow> 'a list" where
  "sort_Slice lt xs = foldl (\<lambda>sorted x. slice_insert lt x sorted) [] xs"

text \<open>
  Go's \<^verbatim>\<open>int32(x)\<close> keeps the low 32 bits, read as two's complement, and \<^verbatim>\<open>int32\<close>
  arithmetic wraps around the same way. \<^verbatim>\<open>/\<close> on integers truncates towards zero.
\<close>

definition int32 :: "int \<Rightarrow> int" where
  "int32 x = (x + 2147483648) mod 4294967296 - 2147483648"

definition quo :: "int \<Rightarrow> int \<Rightarrow> int" where
  "quo a b = sgn a * sgn b * (\<bar>a\<bar> div \<bar>b\<bar>)"

subsection \<open>Data transfer objects (DTOs/public\_files.go)\<close>

text \<open>
  Of \<^verbatim>\<open>FileSystemItem\<close> the fields \<^verbatim>\<open>Name\<close>, \<^verbatim>\<open>Path\<close> and \<^verbatim>\<open>IsDir\<close> are kept. The
  identifier, the entity tag, the MIME type, the size and the times are computed from the
  path and from metadata of the operating system by functions that nothing below depends
  on, and are left out.
\<close>

record FileSystemItem =
  Name :: string
  Path :: string
  ItemIsDir :: bool

record PaginatedItems =
  Items :: "FileSystemItem list"
  Total :: int
  Page :: int
  Limit :: int
  TotalPages :: int
  HasNext :: bool
  HasPrev :: bool

text \<open>
  A \<^verbatim>\<open>map[string]interface{}\<close>, as the responses and the \<^verbatim>\<open>Data\<close> of a
  \<^verbatim>\<open>WebSocketMessage\<close> are, is a list of keys with values. The entries that hold the time
  of the call, a time or a size read back from the operating system, the MIME type, the
  entity tag and the fresh upload identifier are left out.
\<close>

datatype json = Str string | Num int | Bool bool

type_synonym fields = "(string \<times> json) list"

record WebSocketMessage =
  EventType :: string
  Data :: fields

text \<open>
  \<^verbatim>\<open>ErrorResponse\<close>: one constructor for each message the service produces. The last one
  is not an \<^verbatim>\<open>ErrorResponse\<close> but the run-time panic of a slice expression whose bounds are
  out of range.
\<close>

datatype error =
    DangerousPattern string  \<comment> \<open>dangerous pattern detected: \%s\<close>
  | PathEscape  \<comment> \<open>path escape attempt detected\<close>
  | DoesNotExist  \<comment> \<open>directory does not exist\<close>
  | PathResolutionFailed  \<comment> \<open>path resolution failed: ...\<close>
  | PathValidationFailed  \<comment> \<open>path validation failed: ...\<close>
  | HiddenAccess  \<comment> \<open>access to hidden files is not allowed\<close>
  | InvalidFilenameChars  \<comment> \<open>invalid filename characters\<close>
  | PathEmpty  \<comment> \<open>path cannot be empty\<close>
  | CannotCreateHidden  \<comment> \<open>cannot create hidden files\<close>
  | FilenameTooLong  \<comment> \<open>filename too long\<close>
  | EnsureDirFailed  \<comment> \<open>the error of MkdirAll on the public directory\<close>
  | DirectoryNotFound  \<comment> \<open>Directory not found\<close>
  | FailedReadDirectory  \<comment> \<open>Failed to read directory: ...\<close>
  | NotADirectory  \<comment> \<open>Path is not a directory\<close>
  | QueryLength  \<comment> \<open>Search query must be 1-255 characters\<close>
  | FileNotFound  \<comment> \<open>File not found\<close>
  | FailedDelete  \<comment> \<open>Failed to delete item: ...\<close>
  | FailedCreateParents  \<comment> \<open>Failed to create parent directories: ...\<close>
  | FailedCreateFile  \<comment> \<open>Failed to create file: ...\<close>
  | FailedCreateFolder  \<comment> \<open>Failed to create folder: ...\<close>
  | DirectoryAlreadyExists  \<comment> \<open>Directory already exists\<close>
  | SizeLimitExceeded  \<comment> \<open>File size exceeds maximum limit (... GB)\<close>
  | FailedWriteChunk  \<comment> \<open>Failed to write chunk: ...\<close>
  | FailedReadChunk  \<comment> \<open>Failed to read chunk: ...\<close>
  | SourceDoesNotExist  \<comment> \<open>Source file does not exist\<close>
  | DestinationExists  \<comment> \<open>Destination file already exists\<close>
  | FailedRename  \<comment> \<open>Failed to rename file: ...\<close>
  | FailedCopy  \<comment> \<open>Failed to copy file: ...\<close>
  | SliceBoundsPanic  \<comment> \<open>panic: slice bounds out of range\<close>

subsection \<open>The service\<close>

text \<open>
  \<open>wsHub\<close> tells whether the hub pointer is set (the routes set it, the unit tests pass
  nil). An operation returns, besides its answer and the new state of the disk, the list of
  the messages it handed to \<^verbatim>\<open>Broadcast\<close>; whether the hub then delivers them is not part
  of this model.
\<close>

record PublicFilesService =
  publicDir :: string
  wsHub :: bool

definition maxChunkSize :: nat where
  "maxChunkSize = 10 * 1024 * 1024"

definition maxTotalSize :: nat where
  "maxTotalSize = 1 * 1024 * 1024 * 1024 * 1024"

definition maxSearchLength :: nat where
  "maxSearchLength = 255"

definition notifyWebSocket :: "PublicFilesService \<Rightarrow> string \<Rightarrow> fields \<Rightarrow> WebSocketMessage list" where
  "notifyWebSocket p eventType data =
     (if wsHub p then [\<lparr>EventType = eventType, Data = data\<rparr>] else [])"

definition ensurePublicDir :: "PublicFilesService \<Rightarrow> os_state \<Rightarrow> errno + os_state" where
  "ensurePublicDir p w =
     (case Stat w (publicDir p) of
        Inl err \<Rightarrow> if IsNotExist err then MkdirAll w (publicDir p) else Inr w
      | Inr info \<Rightarrow> Inr w)"

text \<open>
  The deny list, in the order of the source: \<^verbatim>\<open>..\<close>, \<^verbatim>\<open>%2e%2e\<close>, \<^verbatim>\<open>%252e%252e\<close>,
  \<^verbatim>\<open>/etc/\<close>, \<^verbatim>\<open>/root/\<close>, \<^verbatim>\<open>/home/\<close>, then the single bytes backslash, colon, star,
  question mark, double quote, less, greater, bar, NUL, tilde, dollar, ampersand,
  semicolon, backquote, quote, the parentheses, the braces and the brackets.
\<close>

definition dangerousPatterns :: "string list" where
  "dangerousPatterns =
     [''..'', ''%2e%2e'', ''%252e%252e'', ''/etc/'', ''/root/'', ''/home/'',
      [CHR 0x5C], '':'', ''*'', ''?'', [CHR 0x22], ''<'', ''>'', ''|'', [CHR 0x00],
      ''~'', ''$'', ''&'', '';'', [CHR 0x60], [CHR 0x27], ''('', '')'', ''{'', ''}'',
      ''['', '']'']"

definition normalize :: "string \<Rightarrow> string" where
  "normalize decoded = Trim (ReplaceAll decoded (CHR 0x5C) (CHR ''/'')) (CHR ''/'')"

text \<open>The loop over the components of the relative path in \<^verbatim>\<open>sanitizePathForRead\<close>.\<close>

fun check_components :: "string list \<Rightarrow> error option" where
  "check_components [] = None"
| "check_components (component # rest) =
     (if HasPrefix component ''.'' \<and> component \<noteq> ''.'' then Some HiddenAccess
      else if Contains component [CHR 0x00] \<or> Contains component ''/''
              \<or> Contains component [CHR 0x5C] then Some InvalidFilenameChars
      else check_components rest)"

definition sanitizePathForRead :: "PublicFilesService \<Rightarrow> os_state \<Rightarrow> string \<Rightarrow> error + string" where
  "sanitizePathForRead p w input =
     (case find (Contains input) dangerousPatterns of
        Some pattern \<Rightarrow> Inl (DangerousPattern pattern)
      | None \<Rightarrow>
          let normalized = normalize input in
          if normalized = [] then Inr (publicDir p)
          else
            let clean = Join [publicDir p, normalized];
                canonical = Abs (wd w) clean;
                publicCanonical = Abs (wd w) (publicDir p)
            in if \<not> HasPrefix canonical publicCanonical then Inl PathEscape
               else case Stat w canonical of
                      Inl err \<Rightarrow>
                        if IsNotExist err then Inl DoesNotExist else Inl PathResolutionFailed
                    | Inr stat \<Rightarrow>
                        if \<not> IsDir stat \<and> \<not> HasPrefix canonical publicCanonical
                        then Inl PathEscape
                        else (case Rel publicCanonical canonical of
                                None \<Rightarrow> Inl PathValidationFailed
                              | Some relPath \<Rightarrow>
                                  (case check_components (Split relPath Separator) of
                                     Some err \<Rightarrow> Inl err
                                   | None \<Rightarrow> Inr canonical)))"

text \<open>
  In \<^verbatim>\<open>sanitizePathForWrite\<close> the branch that creates the parent is taken only when
  \<^verbatim>\<open>filepath.Abs\<close> fails, which it does not here; the function leaves the disk as it is.
\<close>

definition sanitizePathForWrite :: "PublicFilesService \<Rightarrow> os_state \<Rightarrow> string \<Rightarrow> error + string" where
  "sanitizePathForWrite p w input =
     (case find (Contains input) dangerousPatterns of
        Some pattern \<Rightarrow> Inl (DangerousPattern pattern)
      | None \<Rightarrow>
          let normalized = normalize input in
          if normalized = [] then Inl PathEmpty
          else
            let clean = Join [publicDir p, normalized];
                canonical = Abs (wd w) clean;
                publicCanonical = Abs (wd w) (publicDir p);
                parent = Dir canonical
            in if parent \<noteq> [] \<and> \<not> HasPrefix (Abs (wd w) parent) publicCanonical
               then Inl PathEscape
               else
                 let fileName = Base canonical in
                 if HasPrefix fileName ''.'' then Inl CannotCreateHidden
                 else if length fileName > 255 then Inl FilenameTooLong
                 else if Contains fileName [CHR 0x00] \<or> Contains fileName ''/''
                         \<or> Contains fileName [CHR 0x5C] then Inl InvalidFilenameChars
                 else Inr canonical)"

subsection \<open>List and Search\<close>

text \<open>
  The pagination at the end of \<^verbatim>\<open>listItemsImpl\<close> and of \<^verbatim>\<open>SearchItems\<close>, which differ
  only in the upper bound of the limit. A slice expression with a negative start, or with
  an end before the start, panics.
\<close>

definition paginate :: "int \<Rightarrow> FileSystemItem list \<Rightarrow> int \<Rightarrow> int \<Rightarrow> error + PaginatedItems" where
  "paginate upper items pageVal limitVal =
     (let page0 = int32 pageVal;
          page = (if page0 < 1 then 1 else page0);
          limit0 = int32 limitVal;
          limit1 = (if limit0 < 10 then 10 else limit0);
          limit = (if limit1 > upper then upper else limit1);
          total = int32 (int (length items));
          totalPages = quo (int32 (int32 (total + limit) - 1)) limit;
          start = int32 ((page - 1) * limit);
          end0 = int32 (start + limit);
          end1 = (if end0 > total then total else end0)
      in if start < int (length items) then
           (if start < 0 \<or> end1 < start \<or> int (length items) < end1 then Inl SliceBoundsPanic
            else Inr \<lparr>Items = take (nat (end1 - start)) (drop (nat start) items),
                      Total = total, Page = page, Limit = limit, TotalPages = totalPages,
                      HasNext = (page < totalPages), HasPrev = (page > 1)\<rparr>)
         else Inr \<lparr>Items = [], Total = total, Page = page, Limit = limit,
                   TotalPages = totalPages,
                   HasNext = (page < totalPages), HasPrev = (page > 1)\<rparr>)"

text \<open>The \<^verbatim>\<open>less\<close> function given to \<^verbatim>\<open>sort.Slice\<close>.\<close>

definition item_less :: "FileSystemItem \<Rightarrow> FileSystemItem \<Rightarrow> bool" where
  "item_less a b =
     (if ItemIsDir a \<noteq> ItemIsDir b then ItemIsDir a
      else ToLower (Name a) < ToLower (Name b))"

text \<open>The body of the loop over the entries in \<^verbatim>\<open>listItemsImpl\<close>.\<close>

definition list_entry ::
    "PublicFilesService \<Rightarrow> string \<Rightarrow> FileSystemItem list \<Rightarrow> string \<times> node \<Rightarrow> FileSystemItem list" where
  "list_entry p base items entry =
     (let name = fst entry in
      if HasPrefix name ''.'' \<or> name = ''..'' \<or> name = ''.'' then items
      else let filePath = Join [base, name] in
        case Rel (publicDir p) filePath of
          None \<Rightarrow> items
        | Some relPath \<Rightarrow>
            items @ [\<lparr>Name = name, Path = relPath, ItemIsDir = IsDir (snd entry)\<rparr>])"

definition listItemsImpl ::
    "PublicFilesService \<Rightarrow> os_state \<Rightarrow> string option \<Rightarrow> int \<Rightarrow> int \<Rightarrow> (error + PaginatedItems) \<times> os_state" where
  "listItemsImpl p w pathPtr pageVal limitVal =
     (case ensurePublicDir p w of
        Inl err \<Rightarrow> (Inl EnsureDirFailed, w)
      | Inr w1 \<Rightarrow>
          (case (case pathPtr of
                   None \<Rightarrow> Inr (publicDir p)
                 | Some path \<Rightarrow> sanitizePathForRead p w1 path) of
             Inl err \<Rightarrow> (Inl err, w1)
           | Inr base \<Rightarrow>
               (case Stat w1 base of
                  Inl err \<Rightarrow>
                    (if IsNotExist err then Inl DirectoryNotFound else Inl FailedReadDirectory, w1)
                | Inr info \<Rightarrow>
                    if \<not> IsDir info then (Inl NotADirectory, w1)
                    else (case ReadDir w1 base of
                            Inl err \<Rightarrow> (Inl FailedReadDirectory, w1)
                          | Inr ents \<Rightarrow>
                              (paginate 100
                                 (sort_Slice item_less (foldl (list_entry p base) [] ents))
                                 pageVal limitVal, w1)))))"

definition ListItemsRoot ::
    "PublicFilesService \<Rightarrow> os_state \<Rightarrow> int \<Rightarrow> int \<Rightarrow> (error + PaginatedItems) \<times> os_state" where
  "ListItemsRoot p w pageVal limitVal = listItemsImpl p w None pageVal limitVal"

definition ListItems ::
    "PublicFilesService \<Rightarrow> os_state \<Rightarrow> string \<Rightarrow> int \<Rightarrow> int \<Rightarrow> (error + PaginatedItems) \<times> os_state" where
  "ListItems p w path pageVal limitVal =
     (if path = [] \<or> path = ''/'' \<or> path = ''*'' then listItemsImpl p w None pageVal limitVal
      else listItemsImpl p w (Some path) pageVal limitVal)"

text \<open>
  The callback \<^verbatim>\<open>SearchItems\<close> gives to \<^verbatim>\<open>filepath.Walk\<close>; its state is the slice
  \<^verbatim>\<open>results\<close>. (The callback's first test, on the error of the walk, is in \<^const>\<open>Walk\<close>.)
\<close>

definition search_fn ::
    "PublicFilesService \<Rightarrow> string \<Rightarrow> int \<Rightarrow> int \<Rightarrow> string \<Rightarrow> string \<Rightarrow> node \<Rightarrow>
       FileSystemItem list \<Rightarrow> FileSystemItem list \<times> walk_ret" where
  "search_fn p queryLower pageVal limitVal path name info results =
     (if HasPrefix name ''.'' \<or> name = ''.'' \<or> name = ''..'' then (results, WalkNil)
      else if int (length results) \<ge> int32 (int32 pageVal * int32 limitVal)
      then (results, SkipDir)
      else if Contains (ToLower name) queryLower then
        (case Rel (publicDir p) path of
           None \<Rightarrow> (results, WalkNil)
         | Some relPath \<Rightarrow>
             (results @ [\<lparr>Name = name, Path = relPath, ItemIsDir = IsDir info\<rparr>], WalkNil))
      else (results, WalkNil))"

definition SearchItems ::
    "PublicFilesService \<Rightarrow> os_state \<Rightarrow> string \<Rightarrow> int \<Rightarrow> int \<Rightarrow> error + PaginatedItems" where
  "SearchItems p w query pageVal limitVal =
     (let queryLower = ToLower query in
      if queryLower = [] \<or> length queryLower > maxSearchLength then Inl QueryLength
      else paginate 500
             (Walk w (publicDir p) (search_fn p queryLower pageVal limitVal) [])
             pageVal limitVal)"

subsection \<open>Delete, Upload, Create, Rename, Copy\<close>

text \<open>
  Every operation below returns its answer (an error or the response map), the disk after
  the call, and the messages it handed to the hub. \<open>rel_path\<close> is the
  \<^verbatim>\<open>relPath, _ := filepath.Rel(...)\<close> of the source, followed by
  \<^verbatim>\<open>strings.TrimPrefix(relPath, "/")\<close>: the error is dropped and the path is then empty.
\<close>

type_synonym 'a outcome = "(error + 'a) \<times> os_state \<times> WebSocketMessage list"

definition rel_path :: "PublicFilesService \<Rightarrow> string \<Rightarrow> string" where
  "rel_path p target =
     TrimPrefix (case Rel (publicDir p) target of None \<Rightarrow> [] | Some relPath \<Rightarrow> relPath) ''/''"

definition DeleteItem :: "PublicFilesService \<Rightarrow> os_state \<Rightarrow> string \<Rightarrow> fields outcome" where
  "DeleteItem p w path =
     (case sanitizePathForRead p w path of
        Inl err \<Rightarrow> (Inl err, w, [])
      | Inr target \<Rightarrow>
          (case Stat w target of
             Inl err \<Rightarrow> (Inl FileNotFound, w, [])
           | Inr info \<Rightarrow>
               (case (if IsDir info then RemoveAll w target else Remove w target) of
                  Inl err \<Rightarrow> (Inl FailedDelete, w, [])
                | Inr w' \<Rightarrow>
                    (Inr [(''success'', Bool True), (''path'', Str (rel_path p target))],
                     w',
                     notifyWebSocket p ''file_deleted'' [(''path'', Str (rel_path p target))]))))"

text \<open>
  The \<^verbatim>\<open>io.Reader\<close> given to \<^verbatim>\<open>UploadFile\<close> is the list of what its successive
  \<^verbatim>\<open>Read\<close> calls return: the bytes read and the error (nil, \<^verbatim>\<open>io.EOF\<close> or another one).
  A reader whose list is used up answers no bytes and \<^verbatim>\<open>io.EOF\<close>. \<open>remove_file\<close> is
  \<^verbatim>\<open>os.Remove(file)\<close> with its error ignored, as the source calls it.
\<close>

datatype read_error = EOF | ReadFailure

type_synonym reader = "(string \<times> read_error option) list"

definition remove_file :: "os_state \<Rightarrow> string \<Rightarrow> os_state" where
  "remove_file w file = (case Remove w file of Inl err \<Rightarrow> w | Inr w' \<Rightarrow> w')"

fun upload_loop :: "os_state \<Rightarrow> string \<Rightarrow> nat \<Rightarrow> reader \<Rightarrow> (error + nat) \<times> os_state" where
  "upload_loop w file totalBytes [] = (Inr totalBytes, w)"
| "upload_loop w file totalBytes ((buf, err) # data) =
     (if length buf > 0 \<and> totalBytes + length buf > maxTotalSize
      then (Inl SizeLimitExceeded, remove_file w file)
      else case (if length buf > 0 then Write w file buf else Inr w) of
             Inl werr \<Rightarrow> (Inl FailedWriteChunk, remove_file w file)
           | Inr w' \<Rightarrow>
               if err = Some ReadFailure then (Inl FailedReadChunk, remove_file w' file)
               else if err = Some EOF then (Inr (totalBytes + length buf), w')
               else upload_loop w' file (totalBytes + length buf) data)"

definition UploadFile :: "PublicFilesService \<Rightarrow> os_state \<Rightarrow> string \<Rightarrow> reader \<Rightarrow> fields outcome" where
  "UploadFile p w filePath data =
     (case sanitizePathForWrite p w filePath of
        Inl err \<Rightarrow> (Inl err, w, [])
      | Inr file \<Rightarrow>
          (case MkdirAll w (Dir file) of
             Inl err \<Rightarrow> (Inl FailedCreateParents, w, [])
           | Inr w1 \<Rightarrow>
               (case Create w1 file of
                  Inl err \<Rightarrow> (Inl FailedCreateFile, w1, [])
                | Inr w2 \<Rightarrow>
                    (case upload_loop w2 file 0 data of
                       (Inl err, w3) \<Rightarrow> (Inl err, w3, [])
                     | (Inr totalBytes, w3) \<Rightarrow>
                         (Inr [(''success'', Bool True), (''path'', Str (rel_path p file)),
                               (''size_bytes'', Num (int totalBytes))],
                          w3,
                          notifyWebSocket p ''file_created''
                            [(''path'', Str (rel_path p file)),
                             (''size'', Num (int totalBytes))])))))"

definition CreateFolder :: "PublicFilesService \<Rightarrow> os_state \<Rightarrow> string \<Rightarrow> fields outcome" where
  "CreateFolder p w path =
     (case sanitizePathForWrite p w path of
        Inl err \<Rightarrow> (Inl err, w, [])
      | Inr dirPath \<Rightarrow>
          (case MkdirAll w (Dir dirPath) of
             Inl err \<Rightarrow> (Inl FailedCreateParents, w, [])
           | Inr w1 \<Rightarrow>
               (case Mkdir w1 dirPath of
                  Inl err \<Rightarrow>
                    if \<not> IsExist err then (Inl FailedCreateFolder, w1, [])
                    else (Inl DirectoryAlreadyExists, w1, [])
                | Inr w2 \<Rightarrow>
                    (Inr [(''success'', Bool True), (''path'', Str (rel_path p dirPath)),
                          (''type'', Str ''directory'')],
                     w2,
                     notifyWebSocket p ''folder_created''
                       [(''path'', Str (rel_path p dirPath))]))))"

definition CreateFile :: "PublicFilesService \<Rightarrow> os_state \<Rightarrow> string \<Rightarrow> fields outcome" where
  "CreateFile p w path =
     (case sanitizePathForWrite p w path of
        Inl err \<Rightarrow> (Inl err, w, [])
      | Inr filePath \<Rightarrow>
          (case MkdirAll w (Dir filePath) of
             Inl err \<Rightarrow> (Inl FailedCreateParents, w, [])
           | Inr w1 \<Rightarrow>
               (case WriteFile w1 filePath [] of
                  Inl err \<Rightarrow> (Inl FailedCreateFile, w1, [])
                | Inr w2 \<Rightarrow>
                    (Inr [(''success'', Bool True), (''path'', Str (rel_path p filePath)),
                          (''type'', Str ''file''), (''size_bytes'', Num 0)],
                     w2,
                     notifyWebSocket p ''file_created''
                       [(''path'', Str (rel_path p filePath)), (''size'', Num 0),
                        (''type'', Str ''file'')]))))"

definition RenameFile :: "PublicFilesService \<Rightarrow> os_state \<Rightarrow> string \<Rightarrow> string \<Rightarrow> fields outcome" where
  "RenameFile p w oldPath newPath =
     (case sanitizePathForWrite p w oldPath of
        Inl err \<Rightarrow> (Inl err, w, [])
      | Inr oldPathSanitized \<Rightarrow>
          (case sanitizePathForWrite p w newPath of
             Inl err \<Rightarrow> (Inl err, w, [])
           | Inr newPathSanitized \<Rightarrow>
               (case Stat w oldPathSanitized of
                  Inl err \<Rightarrow> (Inl SourceDoesNotExist, w, [])
                | Inr oldInfo \<Rightarrow>
                    (case Stat w newPathSanitized of
                       Inr newInfo \<Rightarrow> (Inl DestinationExists, w, [])
                     | Inl err \<Rightarrow>
                         (case Rename w oldPathSanitized newPathSanitized of
                            Inl err \<Rightarrow> (Inl FailedRename, w, [])
                          | Inr w' \<Rightarrow>
                              (Inr [(''success'', Bool True),
                                    (''message'', Str ''File renamed successfully''),
                                    (''old_path'', Str (rel_path p oldPathSanitized)),
                                    (''new_path'', Str (rel_path p newPathSanitized))],
                               w',
                               notifyWebSocket p ''file_renamed''
                                 [(''old_path'', Str (rel_path p oldPathSanitized)),
                                  (''new_path'', Str (rel_path p newPathSanitized))]))))))"

text \<open>
  In \<^verbatim>\<open>CopyFile\<close> the error of \<^verbatim>\<open>os.MkdirAll\<close> on the parent of the destination is
  ignored.
\<close>

definition CopyFile :: "PublicFilesService \<Rightarrow> os_state \<Rightarrow> string \<Rightarrow> string \<Rightarrow> fields outcome" where
  "CopyFile p w source destination =
     (case sanitizePathForWrite p w source of
        Inl err \<Rightarrow> (Inl err, w, [])
      | Inr sourcePath \<Rightarrow>
          (case sanitizePathForWrite p w destination of
             Inl err \<Rightarrow> (Inl err, w, [])
           | Inr destPath \<Rightarrow>
               (case Stat w sourcePath of
                  Inl err \<Rightarrow> (Inl SourceDoesNotExist, w, [])
                | Inr srcInfo \<Rightarrow>
                    (case Stat w destPath of
                       Inr dstInfo \<Rightarrow> (Inl DestinationExists, w, [])
                     | Inl err \<Rightarrow>
                         let w1 = (case MkdirAll w (Dir destPath) of
                                     Inl err \<Rightarrow> w | Inr w' \<Rightarrow> w')
                         in case ReadFile w1 sourcePath of
                              Inl err \<Rightarrow> (Inl FailedCopy, w1, [])
                            | Inr data \<Rightarrow>
                                (case WriteFile w1 destPath data of
                                   Inl err \<Rightarrow> (Inl FailedCopy, w1, [])
                                 | Inr w2 \<Rightarrow>
                                     (Inr [(''success'', Bool True),
                                           (''message'', Str ''File copied successfully''),
                                           (''source'', Str (rel_path p sourcePath)),
                                           (''destination'', Str (rel_path p destPath)),
                                           (''bytes_copied'', Num (int (length data)))],
                                      w2,
                                      notifyWebSocket p ''file_copied''
                                        [(''source_path'', Str (rel_path p sourcePath)),
                                         (''destination_path'', Str (rel_path p destPath))]))))))"

text \<open>
  What a reader delivers before it ends: the bytes of its reads up to and with the first
  read that returns an error (\<^verbatim>\<open>io.EOF\<close> or another one); and whether that first error
  is a failure.
\<close>

fun delivered :: "reader \<Rightarrow> string" where
  "delivered [] = []"
| "delivered ((buf, err) # data) = buf @ (if err = None then delivered data else [])"

fun read_fails :: "reader \<Rightarrow> bool" where
  "read_fails [] = False"
| "read_fails ((buf, err) # data) = (err = Some ReadFailure \<or> (err = None \<and> read_fails data))"

text \<open>
  What a relative path names for the operations that resolve it for writing (Rename, Move
  and Copy): the node at the sanitized path, if the path passes and the node is there.
\<close>

definition target :: "PublicFilesService \<Rightarrow> os_state \<Rightarrow> string \<Rightarrow> node option" where
  "target p w path =
     (case sanitizePathForWrite p w path of
        Inl err \<Rightarrow> None
      | Inr file \<Rightarrow> (case Stat w file of Inl err \<Rightarrow> None | Inr n \<Rightarrow> Some n))"




section \<open>Properties of the model\<close>

subsection \<open>The tree\<close>

lemma lookup_store_same: "store t es n = Inr t' \<Longrightarrow> lookup t' es = Inr n"
proof (induction t es n arbitrary: t' rule: store.induct)
  case (4 ents e v va n)
  then show ?case
    by (auto simp: AList.update_conv' split: option.splits sum.splits)
qed (auto simp: AList.update_conv')

lemma lookup_unlink_same: "unlink t es = Inr t' \<Longrightarrow> lookup t' es = Inl ENOENT"
proof (induction t es arbitrary: t' rule: unlink.induct)
  case (4 ents e v va)
  then show ?case
    by (auto simp: AList.update_conv' split: option.splits sum.splits)
qed (auto simp: AList.update_conv' AList.delete_conv' split: option.splits)

lemma store_existing: "lookup t es = Inr m \<Longrightarrow> es \<noteq> [] \<Longrightarrow> \<exists>t'. store t es n = Inr t'"
proof (induction t es n arbitrary: m rule: store.induct)
  case (4 ents e v va n)
  then show ?case
    by (fastforce split: option.splits sum.splits)
qed (auto split: option.splits)

lemma unlink_existing: "lookup t es = Inr m \<Longrightarrow> es \<noteq> [] \<Longrightarrow> \<exists>t'. unlink t es = Inr t'"
proof (induction t es arbitrary: m rule: unlink.induct)
  case (4 ents e v va)
  then show ?case
    by (fastforce split: option.splits sum.splits)
qed (auto split: option.splits)

lemma lookup_store_other:
  "store t new n = Inr t' \<Longrightarrow> take (length new) old \<noteq> new \<Longrightarrow> take (length old) new \<noteq> old
     \<Longrightarrow> lookup t' old = lookup t old"
proof (induction t new n arbitrary: t' old rule: store.induct)
  case (1 t n)
  then show ?case by simp
next
  case (2 c e es n)
  then show ?case by simp
next
  case (3 ents e n)
  then show ?case
    by (cases old) (auto simp: AList.update_conv')
next
  case (4 ents e v va n)
  show ?case
  proof (cases old)
    case Nil
    with 4 show ?thesis by simp
  next
    case (Cons o os)
    with 4 show ?thesis
      by (auto simp: AList.update_conv' split: option.splits sum.splits)
  qed
qed

lemma lookup_unlink_other:
  "unlink t gone = Inr t' \<Longrightarrow> take (length gone) old \<noteq> gone \<Longrightarrow> take (length old) gone \<noteq> old
     \<Longrightarrow> lookup t' old = lookup t old"
proof (induction t gone arbitrary: t' old rule: unlink.induct)
  case (1 t)
  then show ?case by simp
next
  case (2 c e es)
  then show ?case by simp
next
  case (3 ents e)
  then show ?case
    by (cases old) (auto simp: AList.update_conv' AList.delete_conv' split: option.splits)
next
  case (4 ents e v va)
  show ?case
  proof (cases old)
    case Nil
    with 4 show ?thesis by simp
  next
    case (Cons o os)
    with 4 show ?thesis
      by (auto simp: AList.update_conv' split: option.splits sum.splits)
  qed
qed

subsection \<open>Paths and the deny list\<close>

lemma Contains_set: "Contains s sub \<Longrightarrow> set sub \<subseteq> set s"
proof (induction s)
  case Nil
  then show ?case by simp
next
  case (Cons c cs)
  show ?case
  proof (cases "HasPrefix (c # cs) sub")
    case True
    then have "sub = take (length sub) (c # cs)"
      by (simp add: HasPrefix_def)
    then have "set sub \<subseteq> set (c # cs)"
      by (metis set_take_subset)
    then show ?thesis .
  next
    case False
    with Cons show ?thesis by auto
  qed
qed

lemma no_pattern_in_slashes:
  assumes "set input \<subseteq> {CHR ''/''}"
  shows "find (Contains input) dangerousPatterns = None"
proof -
  have "\<not> Contains input pat" if "pat \<in> set dangerousPatterns" for pat
  proof
    assume "Contains input pat"
    then have "set pat \<subseteq> {CHR ''/''}"
      using Contains_set assms by blast
    with that show False
      by (auto simp: dangerousPatterns_def)
  qed
  then show ?thesis
    by (simp add: find_None_iff)
qed

lemma normalize_slashes:
  assumes "set input \<subseteq> {CHR ''/''}"
  shows "normalize input = []"
proof -
  have r: "ReplaceAll input (CHR 0x5C) (CHR ''/'') = input"
    using assms by (auto simp: ReplaceAll_def intro!: map_idI)
  have d: "dropWhile (\<lambda>c. c = CHR ''/'') input = []"
    using assms by (auto simp: dropWhile_eq_Nil_conv)
  show ?thesis
    unfolding normalize_def Trim_def r d by simp
qed

lemma lookup_append_error: "lookup t es = Inl err \<Longrightarrow> lookup t (es @ below_it) = Inl err"
  by (induction t es rule: lookup.induct) (auto split: option.splits)

lemma Rel_same: "Rel path path = Some ''.''"
  by (simp add: Rel_def)

lemma rel_path_root: "rel_path p (publicDir p) = ''.''"
  by (simp add: rel_path_def Rel_same TrimPrefix_def HasPrefix_def)

subsection \<open>Files and the upload loop\<close>

lemma WriteFile_Stat:
  assumes "WriteFile w name data = Inr w'"
  shows "Stat w' name = Inr (File data) \<and> wd w' = wd w \<and> os_path w name \<noteq> []"
proof -
  have name: "name \<noteq> []"
    using assms by (auto simp: WriteFile_def Stat_def split: sum.splits if_splits)
  obtain t where t: "store (disk w) (os_path w name) (File data) = Inr t" and w': "w' = w\<lparr>disk := t\<rparr>"
    using assms by (auto simp: WriteFile_def split: sum.splits node.splits if_splits)
  have "lookup t (os_path w name) = Inr (File data)"
    using t by (rule lookup_store_same)
  moreover have "os_path w name \<noteq> []"
    using t by auto
  ultimately show ?thesis
    using name w' by (simp add: Stat_def os_path_def)
qed

lemma Write_existing:
  assumes "Stat w name = Inr (File c)" and "os_path w name \<noteq> []"
  shows "\<exists>w'. Write w name buf = Inr w' \<and> Stat w' name = Inr (File (c @ buf)) \<and> wd w' = wd w"
proof -
  have name: "name \<noteq> []"
    using assms(1) by (auto simp: Stat_def split: if_splits)
  then have "lookup (disk w) (os_path w name) = Inr (File c)"
    using assms(1) by (simp add: Stat_def)
  then obtain t where "store (disk w) (os_path w name) (File (c @ buf)) = Inr t"
    using store_existing assms(2) by blast
  then have "WriteFile w name (c @ buf) = Inr (w\<lparr>disk := t\<rparr>)"
    using assms(1) by (simp add: WriteFile_def)
  then show ?thesis
    using WriteFile_Stat assms(1) by (fastforce simp: Write_def)
qed

lemma remove_file_existing:
  assumes "Stat w name = Inr (File c)" and "os_path w name \<noteq> []"
  shows "Stat (remove_file w name) name = Inl ENOENT \<and> wd (remove_file w name) = wd w"
proof -
  have name: "name \<noteq> []"
    using assms(1) by (auto simp: Stat_def split: if_splits)
  then have "lookup (disk w) (os_path w name) = Inr (File c)"
    using assms(1) by (simp add: Stat_def)
  then obtain t where t: "unlink (disk w) (os_path w name) = Inr t"
    using unlink_existing assms(2) by blast
  then have "remove_file w name = w\<lparr>disk := t\<rparr>"
    using assms(1) by (simp add: remove_file_def Remove_def)
  then show ?thesis
    using lookup_unlink_same [OF t] name by (simp add: Stat_def os_path_def)
qed

lemma upload_loop_over_cap:
  assumes "Stat w file = Inr (File c)" and "os_path w file \<noteq> []"
    and "totalBytes \<le> maxTotalSize"
    and "totalBytes + length (delivered data) > maxTotalSize"
  shows "\<exists>w'. upload_loop w file totalBytes data = (Inl SizeLimitExceeded, w')
            \<and> Stat w' file = Inl ENOENT \<and> wd w' = wd w"
  using assms
proof (induction data arbitrary: w c totalBytes)
  case Nil
  then show ?case by simp
next
  case (Cons ev data)
  obtain buf err where ev: "ev = (buf, err)"
    by (cases ev)
  show ?case
  proof (cases "length buf > 0 \<and> totalBytes + length buf > maxTotalSize")
    case True
    then show ?thesis
      using remove_file_existing [OF Cons.prems(1,2)] by (simp add: ev)
  next
    case False
    then have fits: "totalBytes + length buf \<le> maxTotalSize"
      using Cons.prems(3) by auto
    obtain w1 where w1: "(if length buf > 0 then Write w file buf else Inr w) = Inr w1"
      and st1: "Stat w1 file = Inr (File (c @ buf))" and wd1: "wd w1 = wd w"
      using Write_existing [OF Cons.prems(1,2), of buf] Cons.prems(1) by (cases "buf = []") auto
    have path1: "os_path w1 file \<noteq> []"
      using Cons.prems(2) wd1 by (simp add: os_path_def)
    have none: "err = None"
      using Cons.prems(4) fits by (cases err) (auto simp: ev)
    then have "totalBytes + length buf + length (delivered data) > maxTotalSize"
      using Cons.prems(4) by (simp add: ev)
    from Cons.IH [OF st1 path1 fits this]
    obtain w' where "upload_loop w1 file (totalBytes + length buf) data = (Inl SizeLimitExceeded, w')"
      and "Stat w' file = Inl ENOENT" and "wd w' = wd w1"
      by blast
    moreover have "upload_loop w file totalBytes (ev # data)
                     = upload_loop w1 file (totalBytes + length buf) data"
      using False w1 none by (auto simp: ev)
    ultimately show ?thesis
      using wd1 by simp
  qed
qed

lemma upload_loop_within_cap:
  assumes "Stat w file = Inr (File c)" and "os_path w file \<noteq> []"
    and "totalBytes + length (delivered data) \<le> maxTotalSize"
    and "\<not> read_fails data"
  shows "\<exists>w'. upload_loop w file totalBytes data = (Inr (totalBytes + length (delivered data)), w')
            \<and> Stat w' file = Inr (File (c @ delivered data)) \<and> wd w' = wd w"
  using assms
proof (induction data arbitrary: w c totalBytes)
  case Nil
  then show ?case by simp
next
  case (Cons ev data)
  obtain buf err where ev: "ev = (buf, err)"
    by (cases ev)
  have fits: "\<not> (length buf > 0 \<and> totalBytes + length buf > maxTotalSize)"
    using Cons.prems(3) by (simp add: ev)
  obtain w1 where w1: "(if length buf > 0 then Write w file buf else Inr w) = Inr w1"
    and st1: "Stat w1 file = Inr (File (c @ buf))" and wd1: "wd w1 = wd w"
    using Write_existing [OF Cons.prems(1,2), of buf] Cons.prems(1) by (cases "buf = []") auto
  have path1: "os_path w1 file \<noteq> []"
    using Cons.prems(2) wd1 by (simp add: os_path_def)
  show ?case
  proof (cases err)
    case None
    then have "totalBytes + length buf + length (delivered data) \<le> maxTotalSize"
      and "\<not> read_fails data"
      using Cons.prems(3,4) by (simp_all add: ev)
    from Cons.IH [OF st1 path1 this]
    obtain w' where "upload_loop w1 file (totalBytes + length buf) data
                       = (Inr (totalBytes + length buf + length (delivered data)), w')"
      and "Stat w' file = Inr (File ((c @ buf) @ delivered data))" and "wd w' = wd w1"
      by blast
    moreover have "upload_loop w file totalBytes (ev # data)
                     = upload_loop w1 file (totalBytes + length buf) data"
      using fits w1 None by (auto simp: ev)
    ultimately show ?thesis
      using wd1 None by (simp add: ev add.assoc)
  next
    case (Some e)
    then have "e = EOF"
      using Cons.prems(4) by (cases e) (simp_all add: ev)
    then have "upload_loop w file totalBytes (ev # data) = (Inr (totalBytes + length buf), w1)"
      using fits w1 Some by (auto simp: ev)
    then show ?thesis
      using Some st1 wd1 by (simp add: ev)
  qed
qed

lemma delivered_replicate:
  "length (delivered (replicate n (buf, None))) = n * length buf"
  by (induction n) simp_all

subsection \<open>Rename\<close>

lemma lookup_prefix_exists:
  assumes "lookup t (xs @ ys) = Inr n"
  shows "\<exists>m. lookup t xs = Inr m"
proof (cases "lookup t xs")
  case (Inl err)
  then have "lookup t (xs @ ys) = Inl err"
    by (rule lookup_append_error)
  with assms show ?thesis by simp
next
  case (Inr m)
  then show ?thesis by simp
qed

lemma sanitizePathForWrite_wd:
  "wd w' = wd w \<Longrightarrow> sanitizePathForWrite p w' path = sanitizePathForWrite p w path"
  by (simp add: sanitizePathForWrite_def Let_def split: option.splits)

lemma Rename_fresh:
  assumes old: "Stat w oldname = Inr n" and new: "Stat w newname = Inl err"
    and ren: "Rename w oldname newname = Inr w'"
  shows "Stat w' newname = Inr n \<and> Stat w' oldname = Inl ENOENT \<and> wd w' = wd w"
proof -
  let ?old = "os_path w oldname" and ?new = "os_path w newname"
  have oldname: "oldname \<noteq> []"
    using old by (auto simp: Stat_def split: if_splits)
  have newname: "newname \<noteq> []"
    using ren old by (auto simp: Rename_def Let_def split: if_splits)
  have look_old: "lookup (disk w) ?old = Inr n"
    using old oldname by (simp add: Stat_def)
  have look_new: "lookup (disk w) ?new = Inl err"
    using new newname by (simp add: Stat_def)
  have neq: "?old \<noteq> ?new"
    using look_old look_new by auto
  have not_below: "take (length ?old) ?new \<noteq> ?old"
    using ren old new newname neq by (auto simp: Rename_def Let_def split: if_splits)
  have not_above: "take (length ?new) ?old \<noteq> ?new"
  proof
    assume "take (length ?new) ?old = ?new"
    then have "?old = ?new @ drop (length ?new) ?old"
      by (metis append_take_drop_id)
    then obtain m where "lookup (disk w) ?new = Inr m"
      using look_old lookup_prefix_exists by metis
    with look_new show False by simp
  qed
  obtain t t' where t: "unlink (disk w) ?old = Inr t" and t': "store t ?new n = Inr t'"
    and w': "w' = w\<lparr>disk := t'\<rparr>"
    using ren old new newname neq not_below
    by (auto simp: Rename_def Let_def split: if_splits sum.splits)
  have "lookup t' ?new = Inr n"
    using t' by (rule lookup_store_same)
  moreover have "lookup t' ?old = Inl ENOENT"
    using lookup_store_other [OF t' not_above not_below] lookup_unlink_same [OF t] by simp
  ultimately show ?thesis
    using w' oldname newname by (simp add: Stat_def os_path_def)
qed

subsection \<open>The walk of Search\<close>













subsection \<open>The checks of the two resolvers\<close>

lemma check_components_None:
  assumes "\<forall>c\<in>set cs. (\<not> HasPrefix c ''.'' \<or> c = ''.'') \<and> \<not> Contains c [CHR 0x00]
            \<and> \<not> Contains c ''/'' \<and> \<not> Contains c [CHR 0x5C]"
  shows "check_components cs = None"
  using assms by (induction cs) auto

lemma find_pattern:
  assumes "pattern \<in> set dangerousPatterns" and "Contains input pattern"
  shows "\<exists>pat. find (Contains input) dangerousPatterns = Some pat"
proof (cases "find (Contains input) dangerousPatterns")
  case None
  then show ?thesis
    using assms by (auto simp: find_None_iff)
next
  case (Some pat)
  then show ?thesis by simp
qed

lemma clean_elems_nonempty: "[] \<notin> set out \<Longrightarrow> [] \<notin> set (clean_elems rooted out es)"
  by (induction es arbitrary: out) (auto split: list.splits)

lemma JoinStrings_nonempty: "es \<noteq> [] \<Longrightarrow> [] \<notin> set es \<Longrightarrow> JoinStrings es sep \<noteq> []"
  by (induction es sep rule: JoinStrings.induct) auto

lemma Clean_nonempty: "Clean path \<noteq> []"
proof -
  have "[] \<notin> set (clean_elems (IsAbs path) [] (Split path Separator))"
    by (rule clean_elems_nonempty) simp
  then show ?thesis
    using JoinStrings_nonempty by (auto simp: Clean_def Let_def)
qed

lemma Dir_nonempty: "Dir path \<noteq> []"
  by (simp add: Dir_def Clean_nonempty)

section \<open>The claims\<close>

subsection \<open>C1: no escape\<close>

text \<open>
  C1. For every input that contains \<^verbatim>\<open>..\<close> or another pattern of the deny list, both
  \<^verbatim>\<open>sanitizePathForRead\<close> and \<^verbatim>\<open>sanitizePathForWrite\<close> return an error; and for every input
  without such a pattern whose canonical form lies within the root (and, for the read
  side, which exists and has no hidden components), resolution succeeds with a canonical
  path prefixed by the canonical root.

  The first half holds as stated. The second half does not hold for the write side, which
  has guards of its own: the empty input and \<^verbatim>\<open>.env\<close> have no pattern of the deny list and
  a canonical form within the root, and are refused.
\<close>

theorem C1_write_rejects_plain_inputs:
  "find (Contains ''.env'') dangerousPatterns = None
   \<and> HasPrefix (Abs ''/'' (Join [''/pub'', normalize ''.env''])) (Abs ''/'' ''/pub'')
   \<and> sanitizePathForWrite \<lparr>publicDir = ''/pub'', wsHub = True\<rparr>
        \<lparr>wd = ''/'', disk = Folder [(''pub'', Folder [])]\<rparr> ''.env'' = Inl CannotCreateHidden
   \<and> find (Contains []) dangerousPatterns = None
   \<and> sanitizePathForWrite \<lparr>publicDir = ''/pub'', wsHub = True\<rparr>
        \<lparr>wd = ''/'', disk = Folder [(''pub'', Folder [])]\<rparr> [] = Inl PathEmpty"
  by code_simp

text \<open>
  C1, as amended. An input with a pattern of the deny list is refused by both resolvers
  with the error that names a pattern. An input without one resolves
  \<^item> for reading, to the public directory as it is configured when nothing is left of the
    input once the slashes around it are trimmed; otherwise to its canonical path, when
    that is prefixed by the canonical root, exists, and no component of it relative to the
    root starts with a dot (the component \<^verbatim>\<open>.\<close> apart) or holds NUL, a slash or a backslash;
  \<^item> for writing, to its canonical path, when something is left of the input once the
    slashes are trimmed, the parent of the canonical path is prefixed by the canonical
    root, and the last component does not start with a dot, is at most 255 bytes long and
    holds no NUL, slash or backslash.
  Whatever the input, a path that the read side returns is the public directory as
  configured or is prefixed by the canonical root, and the parent of a path that the write
  side returns is prefixed by the canonical root.
\<close>

theorem C1_resolve:
  fixes p w input
  defines "canonical \<equiv> Abs (wd w) (Join [publicDir p, normalize input])"
    and "publicCanonical \<equiv> Abs (wd w) (publicDir p)"
  shows
   "(pattern \<in> set dangerousPatterns \<and> Contains input pattern \<longrightarrow>
       (\<exists>pat. sanitizePathForRead p w input = Inl (DangerousPattern pat))
       \<and> (\<exists>pat. sanitizePathForWrite p w input = Inl (DangerousPattern pat)))
    \<and> (find (Contains input) dangerousPatterns = None \<and> normalize input = [] \<longrightarrow>
         sanitizePathForRead p w input = Inr (publicDir p))
    \<and> (find (Contains input) dangerousPatterns = None \<and> normalize input \<noteq> []
         \<and> HasPrefix canonical publicCanonical
         \<and> Stat w canonical = Inr n
         \<and> Rel publicCanonical canonical = Some relPath
         \<and> (\<forall>c\<in>set (Split relPath Separator).
               (\<not> HasPrefix c ''.'' \<or> c = ''.'') \<and> \<not> Contains c [CHR 0x00]
               \<and> \<not> Contains c ''/'' \<and> \<not> Contains c [CHR 0x5C]) \<longrightarrow>
         sanitizePathForRead p w input = Inr canonical)
    \<and> (find (Contains input) dangerousPatterns = None \<and> normalize input \<noteq> []
         \<and> HasPrefix (Abs (wd w) (Dir canonical)) publicCanonical
         \<and> \<not> HasPrefix (Base canonical) ''.'' \<and> length (Base canonical) \<le> 255
         \<and> \<not> Contains (Base canonical) [CHR 0x00] \<and> \<not> Contains (Base canonical) ''/''
         \<and> \<not> Contains (Base canonical) [CHR 0x5C] \<longrightarrow>
         sanitizePathForWrite p w input = Inr canonical)
    \<and> (\<forall>r. sanitizePathForRead p w input = Inr r \<longrightarrow>
             r = publicDir p \<or> HasPrefix r publicCanonical)
    \<and> (\<forall>r. sanitizePathForWrite p w input = Inr r \<longrightarrow>
             HasPrefix (Abs (wd w) (Dir r)) publicCanonical)"
proof (intro conjI impI allI)
  assume a: "pattern \<in> set dangerousPatterns \<and> Contains input pattern"
  then obtain pat where "find (Contains input) dangerousPatterns = Some pat"
    using find_pattern by blast
  then show "\<exists>pat. sanitizePathForRead p w input = Inl (DangerousPattern pat)"
    and "\<exists>pat. sanitizePathForWrite p w input = Inl (DangerousPattern pat)"
    by (simp_all add: sanitizePathForRead_def sanitizePathForWrite_def)
next
  assume "find (Contains input) dangerousPatterns = None \<and> normalize input = []"
  then show "sanitizePathForRead p w input = Inr (publicDir p)"
    by (simp add: sanitizePathForRead_def)
next
  assume a: "find (Contains input) dangerousPatterns = None \<and> normalize input \<noteq> []
         \<and> HasPrefix canonical publicCanonical
         \<and> Stat w canonical = Inr n
         \<and> Rel publicCanonical canonical = Some relPath
         \<and> (\<forall>c\<in>set (Split relPath Separator).
               (\<not> HasPrefix c ''.'' \<or> c = ''.'') \<and> \<not> Contains c [CHR 0x00]
               \<and> \<not> Contains c ''/'' \<and> \<not> Contains c [CHR 0x5C])"
  then have "check_components (Split relPath Separator) = None"
    using check_components_None by blast
  with a show "sanitizePathForRead p w input = Inr canonical"
    by (simp add: sanitizePathForRead_def Let_def canonical_def publicCanonical_def)
next
  assume "find (Contains input) dangerousPatterns = None \<and> normalize input \<noteq> []
         \<and> HasPrefix (Abs (wd w) (Dir canonical)) publicCanonical
         \<and> \<not> HasPrefix (Base canonical) ''.'' \<and> length (Base canonical) \<le> 255
         \<and> \<not> Contains (Base canonical) [CHR 0x00] \<and> \<not> Contains (Base canonical) ''/''
         \<and> \<not> Contains (Base canonical) [CHR 0x5C]"
  then show "sanitizePathForWrite p w input = Inr canonical"
    by (simp add: sanitizePathForWrite_def Let_def canonical_def publicCanonical_def)
next
  fix r
  assume "sanitizePathForRead p w input = Inr r"
  then show "r = publicDir p \<or> HasPrefix r publicCanonical"
    by (auto simp: sanitizePathForRead_def Let_def publicCanonical_def
             split: option.splits if_splits sum.splits)
next
  fix r
  assume "sanitizePathForWrite p w input = Inr r"
  then show "HasPrefix (Abs (wd w) (Dir r)) publicCanonical"
    by (auto simp: sanitizePathForWrite_def Let_def publicCanonical_def Dir_nonempty
             split: option.splits if_splits)
qed

theorem C1_resolve_witness:
  "sanitizePathForRead \<lparr>publicDir = ''/pub'', wsHub = True\<rparr>
      \<lparr>wd = ''/'', disk = Folder [(''pub'', Folder [(''docs'', Folder [(''a.txt'', File ''x'')])])]\<rparr>
      ''docs/../../etc'' = Inl (DangerousPattern ''..'')
   \<and> sanitizePathForWrite \<lparr>publicDir = ''/pub'', wsHub = True\<rparr>
      \<lparr>wd = ''/'', disk = Folder [(''pub'', Folder [(''docs'', Folder [(''a.txt'', File ''x'')])])]\<rparr>
      ''docs/../../etc'' = Inl (DangerousPattern ''..'')
   \<and> sanitizePathForRead \<lparr>publicDir = ''/pub'', wsHub = True\<rparr>
      \<lparr>wd = ''/'', disk = Folder [(''pub'', Folder [(''docs'', Folder [(''a.txt'', File ''x'')])])]\<rparr>
      ''/'' = Inr ''/pub''
   \<and> sanitizePathForRead \<lparr>publicDir = ''/pub'', wsHub = True\<rparr>
      \<lparr>wd = ''/'', disk = Folder [(''pub'', Folder [(''docs'', Folder [(''a.txt'', File ''x'')])])]\<rparr>
      ''docs/a.txt'' = Inr ''/pub/docs/a.txt''
   \<and> sanitizePathForWrite \<lparr>publicDir = ''/pub'', wsHub = True\<rparr>
      \<lparr>wd = ''/'', disk = Folder [(''pub'', Folder [(''docs'', Folder [(''a.txt'', File ''x'')])])]\<rparr>
      ''docs/new.txt'' = Inr ''/pub/docs/new.txt''
   \<and> HasPrefix ''/pub/docs/a.txt'' ''/pub''
   \<and> HasPrefix (Abs ''/'' (Dir ''/pub/docs/new.txt'')) ''/pub''"
proof -
  let ?p = "\<lparr>publicDir = ''/pub'', wsHub = True\<rparr>"
  let ?w = "\<lparr>wd = ''/'', disk = Folder [(''pub'', Folder [(''docs'', Folder [(''a.txt'', File ''x'')])])]\<rparr>"
  have dots: "''..'' \<in> set dangerousPatterns \<and> Contains ''docs/../../etc'' ''..''"
    by code_simp
  have r1: "sanitizePathForRead ?p ?w ''docs/../../etc'' = Inl (DangerousPattern ''..'')"
    and w1: "sanitizePathForWrite ?p ?w ''docs/../../etc'' = Inl (DangerousPattern ''..'')"
    by code_simp+
  have root: "find (Contains ''/'') dangerousPatterns = None \<and> normalize ''/'' = []"
    by code_simp
  have rd: "find (Contains ''docs/a.txt'') dangerousPatterns = None \<and> normalize ''docs/a.txt'' \<noteq> []
         \<and> HasPrefix (Abs (wd ?w) (Join [publicDir ?p, normalize ''docs/a.txt'']))
              (Abs (wd ?w) (publicDir ?p))
         \<and> Stat ?w (Abs (wd ?w) (Join [publicDir ?p, normalize ''docs/a.txt''])) = Inr (File ''x'')
         \<and> Rel (Abs (wd ?w) (publicDir ?p))
              (Abs (wd ?w) (Join [publicDir ?p, normalize ''docs/a.txt''])) = Some ''docs/a.txt''
         \<and> (\<forall>c\<in>set (Split ''docs/a.txt'' Separator).
               (\<not> HasPrefix c ''.'' \<or> c = ''.'') \<and> \<not> Contains c [CHR 0x00]
               \<and> \<not> Contains c ''/'' \<and> \<not> Contains c [CHR 0x5C])"
    by code_simp
  have wr: "find (Contains ''docs/new.txt'') dangerousPatterns = None \<and> normalize ''docs/new.txt'' \<noteq> []
         \<and> HasPrefix (Abs (wd ?w) (Dir (Abs (wd ?w) (Join [publicDir ?p, normalize ''docs/new.txt'']))))
              (Abs (wd ?w) (publicDir ?p))
         \<and> \<not> HasPrefix (Base (Abs (wd ?w) (Join [publicDir ?p, normalize ''docs/new.txt'']))) ''.''
         \<and> length (Base (Abs (wd ?w) (Join [publicDir ?p, normalize ''docs/new.txt'']))) \<le> 255
         \<and> \<not> Contains (Base (Abs (wd ?w) (Join [publicDir ?p, normalize ''docs/new.txt'']))) [CHR 0x00]
         \<and> \<not> Contains (Base (Abs (wd ?w) (Join [publicDir ?p, normalize ''docs/new.txt'']))) ''/''
         \<and> \<not> Contains (Base (Abs (wd ?w) (Join [publicDir ?p, normalize ''docs/new.txt'']))) [CHR 0x5C]"
    by code_simp
  have can_r: "Abs (wd ?w) (Join [publicDir ?p, normalize ''docs/a.txt'']) = ''/pub/docs/a.txt''"
    and can_w: "Abs (wd ?w) (Join [publicDir ?p, normalize ''docs/new.txt'']) = ''/pub/docs/new.txt''"
    and pc: "Abs (wd ?w) (publicDir ?p) = ''/pub''"
    by code_simp+
  from C1_resolve [of "''..''" "''docs/../../etc''" ?p ?w] dots
  have 1: "(\<exists>pat. sanitizePathForRead ?p ?w ''docs/../../etc'' = Inl (DangerousPattern pat))
           \<and> (\<exists>pat. sanitizePathForWrite ?p ?w ''docs/../../etc'' = Inl (DangerousPattern pat))"
    by blast
  from C1_resolve [of _ "''/''" ?p ?w] root
  have 2: "sanitizePathForRead ?p ?w ''/'' = Inr ''/pub''"
    by simp
  from C1_resolve [of _ "''docs/a.txt''" ?p ?w "File ''x''" "''docs/a.txt''"] rd
  have 3: "sanitizePathForRead ?p ?w ''docs/a.txt'' = Inr ''/pub/docs/a.txt''"
    unfolding can_r by blast
  from C1_resolve [of _ "''docs/new.txt''" ?p ?w] wr
  have 4: "sanitizePathForWrite ?p ?w ''docs/new.txt'' = Inr ''/pub/docs/new.txt''"
    unfolding can_w by blast
  from C1_resolve [of _ "''docs/a.txt''" ?p ?w] 3
  have 5: "''/pub/docs/a.txt'' = publicDir ?p \<or> HasPrefix ''/pub/docs/a.txt'' ''/pub''"
    unfolding pc by blast
  from C1_resolve [of _ "''docs/new.txt''" ?p ?w] 4
  have 6: "HasPrefix (Abs ''/'' (Dir ''/pub/docs/new.txt'')) ''/pub''"
    unfolding pc by simp
  from r1 w1 2 3 4 5 6 show ?thesis
    by simp
qed

subsection \<open>C2: pagination\<close>

text \<open>
  C2. For every successful List result the number of returned items is
  \<open>min limit (max 0 (total - (page - 1) * limit))\<close>, with the limit clamped to 10..100 and
  the page to at least 1. The code computes \<^verbatim>\<open>(page - 1) * limit\<close> in 32 bits: for page
  67108865 and limit 64 the product is \<open>2^32\<close> and wraps to 0, so on a folder with one
  entry the call succeeds and returns that entry (the first page), where the formula gives
  no item.
\<close>

theorem C2_list_page_overflow:
  "fst (ListItemsRoot \<lparr>publicDir = ''/pub'', wsHub = True\<rparr>
          \<lparr>wd = ''/'', disk = Folder [(''pub'', Folder [(''a.txt'', File ''x'')])]\<rparr>
          67108865 64)
     = Inr \<lparr>Items = [\<lparr>Name = ''a.txt'', Path = ''a.txt'', ItemIsDir = False\<rparr>],
            Total = 1, Page = 67108865, Limit = 64, TotalPages = 1,
            HasNext = False, HasPrev = True\<rparr>
   \<and> min 64 (max 0 (1 - (67108865 - 1) * 64)) = (0::int)"
  by code_simp

subsection \<open>C9: hidden entries\<close>

text \<open>
  C9. List and Search never return an entry with a component of its path that starts with
  a dot. The callback of Search answers nil, not \<^verbatim>\<open>SkipDir\<close>, on a hidden folder, so the
  walk goes on into it: with \<^verbatim>\<open>.git/config\<close> below the root, the search for
  \<^verbatim>\<open>config\<close> returns the item with the path \<^verbatim>\<open>.git/config\<close>.
\<close>

theorem C9_search_returns_entry_in_hidden_folder:
  "SearchItems \<lparr>publicDir = ''/pub'', wsHub = True\<rparr>
     \<lparr>wd = ''/'',
      disk = Folder [(''pub'', Folder [(''.git'', Folder [(''config'', File ''x'')])])]\<rparr>
     ''config'' 1 10
   = Inr \<lparr>Items = [\<lparr>Name = ''config'', Path = ''.git/config'', ItemIsDir = False\<rparr>],
          Total = 1, Page = 1, Limit = 10, TotalPages = 1,
          HasNext = False, HasPrev = False\<rparr>"
  by code_simp

subsection \<open>C3: creating what exists\<close>

text \<open>
  C3. For every path whose target already exists, CreateFolder fails with an
  already-exists error, and CreateFile likewise fails rather than modifying the target, and
  neither emits a notification. \<^verbatim>\<open>CreateFile\<close> calls \<^verbatim>\<open>os.WriteFile\<close> without looking
  whether the target is there: on the existing file \<^verbatim>\<open>notes.txt\<close> with the content
  \<^verbatim>\<open>hello\<close> it succeeds, leaves the file empty and hands \<^verbatim>\<open>file_created\<close> to the hub.
\<close>

theorem C3_create_file_truncates_existing:
  "CreateFile \<lparr>publicDir = ''/pub'', wsHub = True\<rparr>
     \<lparr>wd = ''/'', disk = Folder [(''pub'', Folder [(''notes.txt'', File ''hello'')])]\<rparr>
     ''notes.txt''
   = (Inr [(''success'', Bool True), (''path'', Str ''notes.txt''), (''type'', Str ''file''),
           (''size_bytes'', Num 0)],
      \<lparr>wd = ''/'', disk = Folder [(''pub'', Folder [(''notes.txt'', File [])])]\<rparr>,
      [\<lparr>EventType = ''file_created'',
        Data = [(''path'', Str ''notes.txt''), (''size'', Num 0), (''type'', Str ''file'')]\<rparr>])"
  by code_simp

subsection \<open>C5: listing a folder\<close>

text \<open>
  C5. For every existing directory, List returns its immediate entries without the
  dotfiles, directories first and then by name without regard to case. The routes build
  the service on the relative directory \<^verbatim>\<open>data/public\<close>. For a folder below the root
  \<^verbatim>\<open>listItemsImpl\<close> then holds the absolute path of the folder, and
  \<^verbatim>\<open>filepath.Rel(p.publicDir, filePath)\<close> fails on every entry, which is skipped: the
  folder \<^verbatim>\<open>docs\<close> holds \<^verbatim>\<open>a.txt\<close> and is listed as empty.
\<close>

theorem C5_list_subfolder_of_relative_root_is_empty:
  "ReadDir \<lparr>wd = ''/srv'', disk = Folder [(''srv'', Folder [(''data'', Folder [(''public'',
            Folder [(''docs'', Folder [(''a.txt'', File ''x'')])])])])]\<rparr> ''data/public/docs''
     = Inr [(''a.txt'', File ''x'')]
   \<and> fst (ListItems \<lparr>publicDir = ''data/public'', wsHub = True\<rparr>
       \<lparr>wd = ''/srv'', disk = Folder [(''srv'', Folder [(''data'', Folder [(''public'',
            Folder [(''docs'', Folder [(''a.txt'', File ''x'')])])])])]\<rparr>
       ''docs'' 1 10)
     = Inr \<lparr>Items = [], Total = 0, Page = 1, Limit = 10, TotalPages = 0,
            HasNext = False, HasPrev = False\<rparr>"
  by code_simp

subsection \<open>C10: Delete with an empty path\<close>

text \<open>
  C10. Delete called with an empty or all-slash path does not fail validation:
  \<^verbatim>\<open>sanitizePathForRead\<close> answers the public directory itself, and Delete, on the branch for
  directories, removes it with everything below it and answers success. (The public
  directory is taken to exist as a folder, not to be the root of the file system and not
  to be written with a final dot, which \<^verbatim>\<open>os.RemoveAll\<close> refuses.) After the call nothing
  at or below the public directory resolves.
\<close>

theorem C10_delete_empty_path_removes_root:
  assumes slashes: "set input \<subseteq> {CHR ''/''}"
    and root: "Stat w (publicDir p) = Inr (Folder ents)"
    and nodot: "\<not> endsWithDot (publicDir p)"
    and below: "os_path w (publicDir p) \<noteq> []"
  shows "sanitizePathForRead p w input = Inr (publicDir p)
       \<and> (\<exists>w'. DeleteItem p w input
                  = (Inr [(''success'', Bool True), (''path'', Str ''.'')], w',
                     notifyWebSocket p ''file_deleted'' [(''path'', Str ''.'')])
              \<and> wd w' = wd w
              \<and> (\<forall>below_it. lookup (disk w') (os_path w (publicDir p) @ below_it) = Inl ENOENT))"
proof -
  have san: "sanitizePathForRead p w input = Inr (publicDir p)"
    using no_pattern_in_slashes [OF slashes] normalize_slashes [OF slashes]
    by (simp add: sanitizePathForRead_def)
  have nonempty: "publicDir p \<noteq> []"
    using root by (auto simp: Stat_def)
  have look: "lookup (disk w) (os_path w (publicDir p)) = Inr (Folder ents)"
    using root nonempty by (simp add: Stat_def)
  obtain t' where t': "unlink (disk w) (os_path w (publicDir p)) = Inr t'"
    using unlink_existing [OF look below] by blast
  have rm: "RemoveAll w (publicDir p) = Inr (w\<lparr>disk := t'\<rparr>)"
    using root nonempty nodot t' by (simp add: RemoveAll_def)
  have gone: "lookup t' (os_path w (publicDir p) @ below_it) = Inl ENOENT" for below_it
    using lookup_unlink_same [OF t'] by (rule lookup_append_error)
  have "DeleteItem p w input
          = (Inr [(''success'', Bool True), (''path'', Str ''.'')], w\<lparr>disk := t'\<rparr>,
             notifyWebSocket p ''file_deleted'' [(''path'', Str ''.'')])"
    using san root rm by (simp add: DeleteItem_def rel_path_root)
  with gone have "\<exists>w'. DeleteItem p w input
                  = (Inr [(''success'', Bool True), (''path'', Str ''.'')], w',
                     notifyWebSocket p ''file_deleted'' [(''path'', Str ''.'')])
              \<and> wd w' = wd w
              \<and> (\<forall>below_it. lookup (disk w') (os_path w (publicDir p) @ below_it) = Inl ENOENT)"
    by (intro exI [of _ "w\<lparr>disk := t'\<rparr>"]) simp
  with san show ?thesis by blast
qed

theorem C10_delete_empty_path_witness:
  "sanitizePathForRead \<lparr>publicDir = ''/pub'', wsHub = True\<rparr>
      \<lparr>wd = ''/'', disk = Folder [(''pub'', Folder [(''a.txt'', File ''x'')])]\<rparr> ''//'' = Inr ''/pub''
   \<and> DeleteItem \<lparr>publicDir = ''/pub'', wsHub = True\<rparr>
      \<lparr>wd = ''/'', disk = Folder [(''pub'', Folder [(''a.txt'', File ''x'')])]\<rparr> ''//''
     = (Inr [(''success'', Bool True), (''path'', Str ''.'')],
        \<lparr>wd = ''/'', disk = Folder []\<rparr>,
        [\<lparr>EventType = ''file_deleted'', Data = [(''path'', Str ''.'')]\<rparr>])"
proof -
  let ?p = "\<lparr>publicDir = ''/pub'', wsHub = True\<rparr>"
  let ?w = "\<lparr>wd = ''/'', disk = Folder [(''pub'', Folder [(''a.txt'', File ''x'')])]\<rparr>"
  have 1: "set ''//'' \<subseteq> {CHR ''/''}" by simp
  have 2: "Stat ?w (publicDir ?p) = Inr (Folder [(''a.txt'', File ''x'')])" by code_simp
  have 3: "\<not> endsWithDot (publicDir ?p)" by code_simp
  have 4: "os_path ?w (publicDir ?p) \<noteq> []" by code_simp
  have 5: "DeleteItem ?p ?w ''//''
     = (Inr [(''success'', Bool True), (''path'', Str ''.'')],
        \<lparr>wd = ''/'', disk = Folder []\<rparr>,
        [\<lparr>EventType = ''file_deleted'', Data = [(''path'', Str ''.'')]\<rparr>])" by code_simp
  from C10_delete_empty_path_removes_root [OF 1 2 3 4] 5 show ?thesis by simp
qed

subsection \<open>C4: the cap on an upload\<close>

text \<open>
  C4. For every input stream whose cumulative size exceeds the cap of 1 TiB, even by one
  byte, Upload aborts with the size-limit error and deletes the partially written file,
  so that no file is left at the path; for a stream within the cap it writes all the bytes
  and emits exactly one \<^verbatim>\<open>file_created\<close> notification. The path is one that Upload can
  write to: it passes \<^verbatim>\<open>sanitizePathForWrite\<close>, its parent can be made and the file can be
  created. The size of the stream is the number of bytes it delivers up to its first
  error; a stream within the cap ends with \<^verbatim>\<open>io.EOF\<close>, and the notification goes to a
  hub that is set.
\<close>

theorem C4_upload_cap:
  assumes san: "sanitizePathForWrite p w filePath = Inr file"
    and mk: "MkdirAll w (Dir file) = Inr w1"
    and cr: "Create w1 file = Inr w2"
  shows "(length (delivered data) > maxTotalSize \<longrightarrow>
            (\<exists>w3. UploadFile p w filePath data = (Inl SizeLimitExceeded, w3, [])
                 \<and> Stat w3 file = Inl ENOENT))
       \<and> (length (delivered data) \<le> maxTotalSize \<and> \<not> read_fails data \<and> wsHub p \<longrightarrow>
            (\<exists>w3. UploadFile p w filePath data
                    = (Inr [(''success'', Bool True), (''path'', Str (rel_path p file)),
                            (''size_bytes'', Num (int (length (delivered data))))],
                       w3,
                       [\<lparr>EventType = ''file_created'',
                         Data = [(''path'', Str (rel_path p file)),
                                 (''size'', Num (int (length (delivered data))))]\<rparr>])
                 \<and> Stat w3 file = Inr (File (delivered data))))"
proof -
  have st: "Stat w2 file = Inr (File [])" and path: "os_path w2 file \<noteq> []"
    using WriteFile_Stat [OF cr [unfolded Create_def]] by (simp_all add: os_path_def)
  show ?thesis
  proof (intro conjI impI)
    assume "length (delivered data) > maxTotalSize"
    then have "0 + length (delivered data) > maxTotalSize"
      by simp
    from upload_loop_over_cap [OF st path _ this]
    obtain w3 where "upload_loop w2 file 0 data = (Inl SizeLimitExceeded, w3)"
      and "Stat w3 file = Inl ENOENT"
      by auto
    then show "\<exists>w3. UploadFile p w filePath data = (Inl SizeLimitExceeded, w3, [])
                 \<and> Stat w3 file = Inl ENOENT"
      using san mk cr by (simp add: UploadFile_def)
  next
    assume a: "length (delivered data) \<le> maxTotalSize \<and> \<not> read_fails data \<and> wsHub p"
    then have "0 + length (delivered data) \<le> maxTotalSize" and "\<not> read_fails data"
      by simp_all
    from upload_loop_within_cap [OF st path this]
    obtain w3 where "upload_loop w2 file 0 data = (Inr (length (delivered data)), w3)"
      and "Stat w3 file = Inr (File (delivered data))"
      by auto
    then show "\<exists>w3. UploadFile p w filePath data
                    = (Inr [(''success'', Bool True), (''path'', Str (rel_path p file)),
                            (''size_bytes'', Num (int (length (delivered data))))],
                       w3,
                       [\<lparr>EventType = ''file_created'',
                         Data = [(''path'', Str (rel_path p file)),
                                 (''size'', Num (int (length (delivered data))))]\<rparr>])
                 \<and> Stat w3 file = Inr (File (delivered data))"
      using san mk cr a by (simp add: UploadFile_def notifyWebSocket_def)
  qed
qed

theorem C4_upload_cap_witness:
  "(\<exists>w3. UploadFile \<lparr>publicDir = ''/pub'', wsHub = True\<rparr> \<lparr>wd = ''/'', disk = Folder [(''pub'', Folder [])]\<rparr>
            ''big.bin'' (replicate 104858 (replicate maxChunkSize (CHR ''a''), None))
          = (Inl SizeLimitExceeded, w3, [])
        \<and> Stat w3 ''/pub/big.bin'' = Inl ENOENT)
   \<and> (\<exists>w3. UploadFile \<lparr>publicDir = ''/pub'', wsHub = True\<rparr> \<lparr>wd = ''/'', disk = Folder [(''pub'', Folder [])]\<rparr>
            ''big.bin'' [(''abc'', None), (''de'', Some EOF)]
          = (Inr [(''success'', Bool True), (''path'', Str ''big.bin''), (''size_bytes'', Num 5)],
             w3,
             [\<lparr>EventType = ''file_created'',
               Data = [(''path'', Str ''big.bin''), (''size'', Num 5)]\<rparr>])
        \<and> Stat w3 ''/pub/big.bin'' = Inr (File ''abcde''))"
proof -
  let ?p = "\<lparr>publicDir = ''/pub'', wsHub = True\<rparr>"
  let ?w = "\<lparr>wd = ''/'', disk = Folder [(''pub'', Folder [])]\<rparr>"
  let ?w2 = "\<lparr>wd = ''/'', disk = Folder [(''pub'', Folder [(''big.bin'', File [])])]\<rparr>"
  let ?big = "replicate 104858 (replicate maxChunkSize (CHR ''a''), None :: read_error option)"
  let ?small = "[(''abc'', None), (''de'', Some EOF)]"
  have san: "sanitizePathForWrite ?p ?w ''big.bin'' = Inr ''/pub/big.bin''"
    by code_simp
  have mk: "MkdirAll ?w (Dir ''/pub/big.bin'') = Inr ?w"
    by code_simp
  have cr: "Create ?w ''/pub/big.bin'' = Inr ?w2"
    by code_simp
  have rel: "rel_path ?p ''/pub/big.bin'' = ''big.bin''"
    by code_simp
  have big: "length (delivered ?big) > maxTotalSize"
    by (simp add: delivered_replicate maxTotalSize_def maxChunkSize_def)
  have small: "length (delivered ?small) \<le> maxTotalSize \<and> \<not> read_fails ?small \<and> wsHub ?p"
    by (simp add: maxTotalSize_def)
  from C4_upload_cap [OF san mk cr, of ?big] big
  have 1: "\<exists>w3. UploadFile ?p ?w ''big.bin'' ?big = (Inl SizeLimitExceeded, w3, [])
        \<and> Stat w3 ''/pub/big.bin'' = Inl ENOENT"
    by blast
  from C4_upload_cap [OF san mk cr, of ?small] small
  have 2: "\<exists>w3. UploadFile ?p ?w ''big.bin'' ?small
          = (Inr [(''success'', Bool True), (''path'', Str ''big.bin''), (''size_bytes'', Num 5)],
             w3,
             [\<lparr>EventType = ''file_created'',
               Data = [(''path'', Str ''big.bin''), (''size'', Num 5)]\<rparr>])
        \<and> Stat w3 ''/pub/big.bin'' = Inr (File ''abcde'')"
    by (simp add: rel)
  from 1 2 show ?thesis by blast
qed

subsection \<open>C6: Rename\<close>

text \<open>
  C6. Rename(a, b) fails with an error, leaving the file system unchanged, when the source
  is missing or the destination already exists; when it succeeds, a no longer resolves
  (neither for writing nor for reading), b resolves to what a was before, and exactly one
  \<^verbatim>\<open>file_renamed\<close> notification is emitted (to a hub that is set).
\<close>

theorem C6_rename:
  "(target p w a = None \<or> target p w b \<noteq> None \<longrightarrow>
      (\<exists>err. RenameFile p w a b = (Inl err, w, [])))
   \<and> (\<forall>r w' msgs. RenameFile p w a b = (Inr r, w', msgs) \<longrightarrow>
         target p w a \<noteq> None \<and> target p w' a = None \<and> target p w' b = target p w a
         \<and> (\<exists>err. sanitizePathForRead p w' a = Inl err)
         \<and> (wsHub p \<longrightarrow> (\<exists>data. msgs = [\<lparr>EventType = ''file_renamed'', Data = data\<rparr>])))"
proof (intro conjI allI impI)
  assume "target p w a = None \<or> target p w b \<noteq> None"
  then show "\<exists>err. RenameFile p w a b = (Inl err, w, [])"
    by (auto simp: target_def RenameFile_def split: sum.splits)
next
  fix r w' msgs
  assume ok: "RenameFile p w a b = (Inr r, w', msgs)"
  then obtain pa pb n err where pa: "sanitizePathForWrite p w a = Inr pa"
    and pb: "sanitizePathForWrite p w b = Inr pb"
    and old: "Stat w pa = Inr n" and new: "Stat w pb = Inl err"
    and ren: "Rename w pa pb = Inr w'"
    and msgs: "msgs = notifyWebSocket p ''file_renamed''
                 [(''old_path'', Str (rel_path p pa)), (''new_path'', Str (rel_path p pb))]"
    by (auto simp: RenameFile_def split: sum.splits)
  have after: "Stat w' pb = Inr n" "Stat w' pa = Inl ENOENT" "wd w' = wd w"
    using Rename_fresh [OF old new ren] by simp_all
  have pa': "sanitizePathForWrite p w' a = Inr pa" and pb': "sanitizePathForWrite p w' b = Inr pb"
    using pa pb sanitizePathForWrite_wd [OF after(3)] by simp_all
  show "target p w a \<noteq> None"
    using pa old by (simp add: target_def)
  show "target p w' a = None"
    using pa' after(2) by (simp add: target_def)
  show "target p w' b = target p w a"
    using pa pb' old after(1) by (simp add: target_def)
  show "\<exists>err. sanitizePathForRead p w' a = Inl err"
    using pa after(2,3)
    by (auto simp: sanitizePathForRead_def sanitizePathForWrite_def Let_def IsNotExist_def
             split: option.splits if_splits)
  show "\<exists>data. msgs = [\<lparr>EventType = ''file_renamed'', Data = data\<rparr>]" if "wsHub p"
    using that msgs by (simp add: notifyWebSocket_def)
qed

theorem C6_rename_witness:
  "RenameFile \<lparr>publicDir = ''/pub'', wsHub = True\<rparr>
      \<lparr>wd = ''/'', disk = Folder [(''pub'', Folder [(''old.txt'', File ''hello'')])]\<rparr>
      ''old.txt'' ''new.txt''
    = (Inr [(''success'', Bool True), (''message'', Str ''File renamed successfully''),
            (''old_path'', Str ''old.txt''), (''new_path'', Str ''new.txt'')],
       \<lparr>wd = ''/'', disk = Folder [(''pub'', Folder [(''new.txt'', File ''hello'')])]\<rparr>,
       [\<lparr>EventType = ''file_renamed'',
         Data = [(''old_path'', Str ''old.txt''), (''new_path'', Str ''new.txt'')]\<rparr>])
   \<and> target \<lparr>publicDir = ''/pub'', wsHub = True\<rparr>
        \<lparr>wd = ''/'', disk = Folder [(''pub'', Folder [(''new.txt'', File ''hello'')])]\<rparr> ''old.txt'' = None
   \<and> target \<lparr>publicDir = ''/pub'', wsHub = True\<rparr>
        \<lparr>wd = ''/'', disk = Folder [(''pub'', Folder [(''new.txt'', File ''hello'')])]\<rparr> ''new.txt''
      = Some (File ''hello'')
   \<and> (\<exists>err. RenameFile \<lparr>publicDir = ''/pub'', wsHub = True\<rparr>
      \<lparr>wd = ''/'', disk = Folder [(''pub'', Folder [(''old.txt'', File ''hello'')])]\<rparr>
      ''missing.txt'' ''new.txt''
      = (Inl err, \<lparr>wd = ''/'', disk = Folder [(''pub'', Folder [(''old.txt'', File ''hello'')])]\<rparr>, []))"
proof -
  let ?p = "\<lparr>publicDir = ''/pub'', wsHub = True\<rparr>"
  let ?w = "\<lparr>wd = ''/'', disk = Folder [(''pub'', Folder [(''old.txt'', File ''hello'')])]\<rparr>"
  let ?w' = "\<lparr>wd = ''/'', disk = Folder [(''pub'', Folder [(''new.txt'', File ''hello'')])]\<rparr>"
  have run: "RenameFile ?p ?w ''old.txt'' ''new.txt''
    = (Inr [(''success'', Bool True), (''message'', Str ''File renamed successfully''),
            (''old_path'', Str ''old.txt''), (''new_path'', Str ''new.txt'')],
       ?w',
       [\<lparr>EventType = ''file_renamed'',
         Data = [(''old_path'', Str ''old.txt''), (''new_path'', Str ''new.txt'')]\<rparr>])"
    by code_simp
  have before: "target ?p ?w ''old.txt'' = Some (File ''hello'')"
    by code_simp
  have missing: "target ?p ?w ''missing.txt'' = None"
    by code_simp
  from C6_rename [of ?p ?w "''old.txt''" "''new.txt''"] run before
  have "target ?p ?w' ''old.txt'' = None \<and> target ?p ?w' ''new.txt'' = Some (File ''hello'')"
    by simp
  moreover from C6_rename [of ?p ?w "''missing.txt''" "''new.txt''"] missing
  have "\<exists>err. RenameFile ?p ?w ''missing.txt'' ''new.txt'' = (Inl err, ?w, [])"
    by blast
  ultimately show ?thesis
    using run by simp
qed

subsection \<open>C8: Search\<close>



end
